theory Spec2Isabelle
  imports Main "HOL-Library.Word" "HOL-Library.Multiset"
begin

unbundle bit_operations_syntax

section \<open>Bytes and strings\<close>

text \<open>
  A Go \<^verbatim>\<open>string\<close> is a sequence of bytes and \<^verbatim>\<open>string(b)\<close> of a
  \<^verbatim>\<open>[]byte\<close> keeps the bytes as they are. Both are modelled as lists of
  \<^typ>\<open>char\<close>, whose values are the 256 bytes; \<^term>\<open>of_char\<close> reads a byte as a
  number.
\<close>

type_synonym byte = char

text \<open>Indexing a Go slice panics out of range; the panic is the value \<open>None\<close>.\<close>

definition index_at :: "'a list \<Rightarrow> nat \<Rightarrow> 'a option" where
  "index_at xs i = (if i < length xs then Some (xs ! i) else None)"

section \<open>Package elf: \<^verbatim>\<open>ReadCString\<close>\<close>

text \<open>
  \<^verbatim>\<open>
  func ReadCString(data []byte) string {
      for i := 0; i < len(data); i++ {
          if data[i] == 0 { return string(data[:i]) }
      }
      return string(data)
  }
  \<close>
  The loop counter is the second argument; a panic of \<^verbatim>\<open>data[i]\<close> would be
  \<open>None\<close>.
\<close>

function ReadCString_loop :: "byte list \<Rightarrow> nat \<Rightarrow> string option" where
  "ReadCString_loop data i =
     (if i < length data then
        (case index_at data i of
           None \<Rightarrow> None
         | Some b \<Rightarrow>
             if b = CHR 0x00 then Some (take i data)
             else ReadCString_loop data (i + 1))
      else Some data)"
  by pat_completeness auto
termination
  by (relation "measure (\<lambda>(data, i). length data - i)") auto

definition ReadCString :: "byte list \<Rightarrow> string option" where
  "ReadCString data = ReadCString_loop data 0"

section \<open>Go slices of bytes\<close>

text \<open>
  A \<^verbatim>\<open>[]byte\<close> is a slice header: a backing array, an offset into it, a length and a
  capacity (the bytes of the array from the offset on). The backing arrays live in a
  heap, a map from array numbers to their contents together with the next unused number.
  The \<^verbatim>\<open>nil\<close> slice has length and capacity 0.
\<close>

record ByteSlice =
  sl_array :: nat
  sl_off :: nat
  sl_len :: nat
  sl_cap :: nat

record Heap =
  hp_arrays :: "nat \<Rightarrow> byte list"
  hp_next :: nat

definition nil_slice :: ByteSlice where
  "nil_slice = \<lparr>sl_array = 0, sl_off = 0, sl_len = 0, sl_cap = 0\<rparr>"

text \<open>The bytes a slice denotes in a heap.\<close>

definition slice_bytes :: "Heap \<Rightarrow> ByteSlice \<Rightarrow> byte list" where
  "slice_bytes h s = take (sl_len s) (drop (sl_off s) (hp_arrays h (sl_array s)))"

definition write_at :: "byte list \<Rightarrow> nat \<Rightarrow> byte list \<Rightarrow> byte list" where
  "write_at arr pos bs = take pos arr @ bs @ drop (pos + length bs) arr"

text \<open>
  \<^verbatim>\<open>append(s, t...)\<close>. When the capacity of \<open>s\<close> suffices, the bytes of \<open>t\<close> are written
  into the backing array of \<open>s\<close> behind its last element, whatever else refers to that
  part of the array, and the result is \<open>s\<close> with the greater length. Otherwise a new
  array is allocated, with the contents of \<open>s\<close> followed by those of \<open>t\<close>; its capacity
  is chosen by the runtime (the argument \<open>growcap\<close>, from the old capacity and the
  length needed).
\<close>

definition append_slice ::
  "(nat \<Rightarrow> nat \<Rightarrow> nat) \<Rightarrow> Heap \<Rightarrow> ByteSlice \<Rightarrow> ByteSlice \<Rightarrow> Heap \<times> ByteSlice" where
  "append_slice growcap h s t =
     (let added = slice_bytes h t in
      if sl_len s + sl_len t \<le> sl_cap s then
        (h\<lparr>hp_arrays := (hp_arrays h)
             (sl_array s := write_at (hp_arrays h (sl_array s)) (sl_off s + sl_len s) added)\<rparr>,
         s\<lparr>sl_len := sl_len s + sl_len t\<rparr>)
      else
        (let newcap = growcap (sl_cap s) (sl_len s + sl_len t) in
         (h\<lparr>hp_arrays := (hp_arrays h)
              (hp_next h := slice_bytes h s @ added @
                 replicate (newcap - (sl_len s + sl_len t)) CHR 0x00),
            hp_next := hp_next h + 1\<rparr>,
          \<lparr>sl_array = hp_next h, sl_off = 0, sl_len = sl_len s + sl_len t,
           sl_cap = newcap\<rparr>)))"

section \<open>Package elf: the model's data\<close>

text \<open>
  The structs \<^verbatim>\<open>Section\<close> and \<^verbatim>\<open>Symbol\<close> of \<^verbatim>\<open>elf/elf.go\<close>, field by field;
  \<^verbatim>\<open>uint16\<close>, \<^verbatim>\<open>uint32\<close> and \<^verbatim>\<open>uint64\<close> are words of that width.
  The payload \<^verbatim>\<open>Data []byte\<close> of a section is a slice header.
\<close>

record Section =
  sec_Name :: string
  sec_Type :: "32 word"
  sec_Flags :: "64 word"
  sec_Addr :: "64 word"
  sec_Offset :: "64 word"
  sec_Size :: "64 word"
  sec_Link :: "32 word"
  sec_Info :: "32 word"
  sec_AddrAlign :: "64 word"
  sec_EntSize :: "64 word"
  sec_Data :: ByteSlice

record Symbol =
  sym_Name :: string
  sym_Value :: "64 word"
  sym_Size :: "64 word"
  sym_Info :: byte
  sym_Other :: byte
  sym_Shndx :: "16 word"
  sym_Type :: string
  sym_Binding :: string

text \<open>The zero values of the two structs (\<^verbatim>\<open>var section Section\<close>).\<close>

definition zero_Section :: Section where
  "zero_Section = \<lparr>sec_Name = [], sec_Type = 0, sec_Flags = 0, sec_Addr = 0, sec_Offset = 0,
     sec_Size = 0, sec_Link = 0, sec_Info = 0, sec_AddrAlign = 0, sec_EntSize = 0,
     sec_Data = nil_slice\<rparr>"

definition zero_Symbol :: Symbol where
  "zero_Symbol = \<lparr>sym_Name = [], sym_Value = 0, sym_Size = 0, sym_Info = CHR 0x00,
     sym_Other = CHR 0x00, sym_Shndx = 0, sym_Type = [], sym_Binding = []\<rparr>"

section \<open>The assembler (\<^verbatim>\<open>as\<close>): code and symbol generation\<close>

record Instruction =
  Opcode :: string
  Operands :: "string list"
  Label :: string

text \<open>
  \<^verbatim>\<open>generateCode\<close> appends one byte for each instruction: \<^verbatim>\<open>0xc3\<close> for
  \<^verbatim>\<open>ret\<close>, \<^verbatim>\<open>0x90\<close> for \<^verbatim>\<open>nop\<close> and for every other opcode. The
  accumulator is the slice \<^verbatim>\<open>code\<close>.
\<close>

definition encode_opcode :: "string \<Rightarrow> byte list" where
  "encode_opcode opc =
     (if opc = ''ret'' then [CHR 0xC3]
      else if opc = ''nop'' then [CHR 0x90]
      else [CHR 0x90])"

fun generateCode_loop :: "Instruction list \<Rightarrow> byte list \<Rightarrow> byte list" where
  "generateCode_loop [] code = code"
| "generateCode_loop (inst # rest) code =
     generateCode_loop rest (code @ encode_opcode (Opcode inst))"

definition generateCode :: "Instruction list \<Rightarrow> byte list" where
  "generateCode instructions = generateCode_loop instructions []"

text \<open>
  \<^verbatim>\<open>generateSymbols\<close>: \<^verbatim>\<open>for i, inst := range instructions\<close>, with the index
  \<open>i\<close> as an argument. \<^verbatim>\<open>uint64(i * 4)\<close> of an \<^verbatim>\<open>int\<close> index is the word of
  \<open>i * 4\<close>. The fields the literal leaves out are zero.
\<close>

fun generateSymbols_loop :: "Instruction list \<Rightarrow> nat \<Rightarrow> Symbol list \<Rightarrow> Symbol list" where
  "generateSymbols_loop [] i symbols = symbols"
| "generateSymbols_loop (inst # rest) i symbols =
     generateSymbols_loop rest (i + 1)
       (if Label inst \<noteq> []
        then symbols @ [zero_Symbol\<lparr>sym_Name := Label inst, sym_Value := word_of_nat (i * 4),
               sym_Size := 0, sym_Info := CHR 0x02, sym_Type := ''STT_FUNC'',
               sym_Binding := ''STB_LOCAL''\<rparr>]
        else symbols)"

definition generateSymbols :: "Instruction list \<Rightarrow> Symbol list" where
  "generateSymbols instructions = generateSymbols_loop instructions 0 []"

section \<open>The linker (\<^verbatim>\<open>ld\<close>): symbol resolution\<close>

text \<open>
  \<^verbatim>\<open>resolveSymbols\<close> keeps a \<^verbatim>\<open>map[string]*elf.Symbol\<close> whose values point into the
  slice \<^verbatim>\<open>symbols\<close>: the pointer to \<^verbatim>\<open>symbols[i]\<close> is the index \<open>i\<close>. One step of
  the first loop (\<^verbatim>\<open>for i := range symbols\<close>):
\<close>

definition resolve_step :: "Symbol list \<Rightarrow> (string \<rightharpoonup> nat) \<Rightarrow> nat \<Rightarrow> (string \<rightharpoonup> nat)" where
  "resolve_step symbols symbolMap i =
     (let sym = symbols ! i in
      case symbolMap (sym_Name sym) of
        Some existing \<Rightarrow>
          if sym_Type sym \<noteq> ''STT_NOTYPE'' \<and> sym_Type (symbols ! existing) = ''STT_NOTYPE''
          then symbolMap(sym_Name sym \<mapsto> i)
          else symbolMap
      | None \<Rightarrow> symbolMap(sym_Name sym \<mapsto> i))"

definition resolveSymbols_map :: "Symbol list \<Rightarrow> (string \<rightharpoonup> nat)" where
  "resolveSymbols_map symbols = fold (\<lambda>i m. resolve_step symbols m i) [0 ..< length symbols] Map.empty"

text \<open>
  \<^verbatim>\<open>for _, sym := range symbolMap\<close> visits every key of the map once, in an order Go
  leaves unspecified. The order is the argument \<open>keys\<close>; a key list the runtime can
  produce is distinct and enumerates the domain of the map.
\<close>

definition range_values :: "string list \<Rightarrow> (string \<rightharpoonup> nat) \<Rightarrow> 'a list \<Rightarrow> 'a list" where
  "range_values keys m xs =
     fold (\<lambda>k out. case m k of Some j \<Rightarrow> out @ [xs ! j] | None \<Rightarrow> out) keys []"

definition resolveSymbols :: "string list \<Rightarrow> Symbol list \<Rightarrow> Symbol list" where
  "resolveSymbols keys symbols = range_values keys (resolveSymbols_map symbols) symbols"

text \<open>
  The resolution rule in the specification's words: the entry under a name is the first
  symbol of that name with a type other than \<^verbatim>\<open>STT_NOTYPE\<close>, and the first symbol of that
  name when there is none.
\<close>

definition spec_defined_else_first :: "string \<Rightarrow> Symbol list \<Rightarrow> Symbol option" where
  "spec_defined_else_first n symbols =
     (case find (\<lambda>s. sym_Name s = n \<and> sym_Type s \<noteq> ''STT_NOTYPE'') symbols of
        Some d \<Rightarrow> Some d
      | None \<Rightarrow> find (\<lambda>s. sym_Name s = n) symbols)"

text \<open>Two inputs: \<open>objA\<close> defines \<open>foo\<close> as a function, \<open>objB\<close> refers to it.\<close>

definition objA :: "Symbol list" where
  "objA = [zero_Symbol\<lparr>sym_Name := ''foo'', sym_Value := 64, sym_Type := ''STT_FUNC''\<rparr>]"
definition objB :: "Symbol list" where
  "objB = [zero_Symbol\<lparr>sym_Name := ''foo'', sym_Type := ''STT_NOTYPE''\<rparr>]"

section \<open>The linker (\<^verbatim>\<open>ld\<close>): section merging\<close>

text \<open>
  \<^verbatim>\<open>mergeSections\<close> keeps a \<^verbatim>\<open>map[string]*elf.Section\<close> of pointers into the slice
  \<^verbatim>\<open>sections\<close> and updates the element an entry points to in place:
  \<^verbatim>\<open>
  existing.Data = append(existing.Data, section.Data...)
  existing.Size += section.Size
  \<close>
  The state of the loop is the heap of backing arrays, the slice \<^verbatim>\<open>sections\<close> as
  updated so far, and the map from names to indices. \<^verbatim>\<open>Size\<close> is a \<^verbatim>\<open>uint64\<close>, so the
  addition is the one of 64-bit words.
\<close>

record MergeState =
  mg_heap :: Heap
  mg_sections :: "Section list"
  mg_map :: "string \<rightharpoonup> nat"

definition merge_step :: "(nat \<Rightarrow> nat \<Rightarrow> nat) \<Rightarrow> MergeState \<Rightarrow> nat \<Rightarrow> MergeState" where
  "merge_step growcap st i =
     (let sections = mg_sections st; sectionMap = mg_map st; section = sections ! i in
      case sectionMap (sec_Name section) of
        Some existing \<Rightarrow>
          (let (heap', data') =
                 append_slice growcap (mg_heap st) (sec_Data (sections ! existing))
                   (sec_Data section)
           in st\<lparr>mg_heap := heap',
                 mg_sections := sections[existing := (sections ! existing)
                   \<lparr>sec_Data := data',
                    sec_Size := sec_Size (sections ! existing) + sec_Size section\<rparr>]\<rparr>)
      | None \<Rightarrow> st\<lparr>mg_map := sectionMap(sec_Name section \<mapsto> i)\<rparr>)"

definition mergeSections_loop ::
  "(nat \<Rightarrow> nat \<Rightarrow> nat) \<Rightarrow> Heap \<Rightarrow> Section list \<Rightarrow> MergeState" where
  "mergeSections_loop growcap heap sections =
     fold (\<lambda>i st. merge_step growcap st i) [0 ..< length sections]
       \<lparr>mg_heap = heap, mg_sections = sections, mg_map = Map.empty\<rparr>"

text \<open>
  The result is the heap after the loop and the list \<^verbatim>\<open>merged\<close>, which holds a copy of
  each section the map points to (\<^verbatim>\<open>append(merged, *section)\<close>), in the order \<open>keys\<close> in
  which the map is enumerated.
\<close>

definition mergeSections ::
  "string list \<Rightarrow> (nat \<Rightarrow> nat \<Rightarrow> nat) \<Rightarrow> Heap \<Rightarrow> Section list \<Rightarrow> Heap \<times> Section list" where
  "mergeSections keys growcap heap sections =
     (let st = mergeSections_loop growcap heap sections
      in (mg_heap st, range_values keys (mg_map st) (mg_sections st)))"

text \<open>The payload bytes of the merged sections of one name.\<close>

definition merged_payloads :: "string \<Rightarrow> Heap \<times> Section list \<Rightarrow> byte list list" where
  "merged_payloads n res =
     map (\<lambda>s. slice_bytes (fst res) (sec_Data s)) (filter (\<lambda>s. sec_Name s = n) (snd res))"

text \<open>
  Two inputs with a \<^verbatim>\<open>.text\<close> section each, of sizes 10 and 20, with payloads in arrays
  of their own.
\<close>

definition text_heap :: Heap where
  "text_heap = \<lparr>hp_arrays = (\<lambda>a. [])(0 := ''0123456789'', 1 := ''abcdefghijklmnopqrst''),
                 hp_next = 2\<rparr>"

definition text10 :: Section where
  "text10 = zero_Section\<lparr>sec_Name := ''.text'', sec_Type := 1, sec_Size := 10,
     sec_Data := \<lparr>sl_array = 0, sl_off = 0, sl_len = 10, sl_cap = 10\<rparr>\<rparr>"

definition text20 :: Section where
  "text20 = zero_Section\<lparr>sec_Name := ''.text'', sec_Type := 1, sec_Size := 20,
     sec_Data := \<lparr>sl_array = 1, sl_off = 0, sl_len = 20, sl_cap = 20\<rparr>\<rparr>"



section \<open>Go's \<^verbatim>\<open>fmt\<close> verbs\<close>

text \<open>
  The verbs the tools use: \<^verbatim>\<open>%d\<close> and \<^verbatim>\<open>%o\<close> of a signed integer, \<^verbatim>\<open>%0wx\<close> of
  an unsigned one (lower-case hexadecimal, padded with zeros on the left to width
  \<open>w\<close>) and \<^verbatim>\<open>%c\<close> of a byte, which prints the code point of that number in UTF-8.
\<close>

definition digit_char :: "nat \<Rightarrow> char" where
  "digit_char d = ''0123456789abcdef'' ! d"

function fmt_nat :: "nat \<Rightarrow> nat \<Rightarrow> string" where
  "fmt_nat b n =
     (if b < 2 \<or> n < b then [digit_char n]
      else fmt_nat b (n div b) @ [digit_char (n mod b)])"
  by pat_completeness auto
termination
  by (relation "measure (\<lambda>(b, n). n)") auto

declare fmt_nat.simps [simp del]

definition pad_left :: "char \<Rightarrow> nat \<Rightarrow> string \<Rightarrow> string" where
  "pad_left c w s = replicate (w - length s) c @ s"

definition fmt_d :: "int \<Rightarrow> string" where
  "fmt_d n = (if n < 0 then CHR ''-'' # fmt_nat 10 (nat (- n)) else fmt_nat 10 (nat n))"

definition fmt_o :: "int \<Rightarrow> string" where
  "fmt_o n = (if n < 0 then CHR ''-'' # fmt_nat 8 (nat (- n)) else fmt_nat 8 (nat n))"

definition fmt_x :: "nat \<Rightarrow> nat \<Rightarrow> string" where
  "fmt_x w n = pad_left CHR ''0'' w (fmt_nat 16 n)"


section \<open>The symbol lister (\<^verbatim>\<open>nm\<close>)\<close>




text \<open>The structs \<^verbatim>\<open>ELFHeader\<close>, \<^verbatim>\<open>Segment\<close> and \<^verbatim>\<open>ELF\<close> of \<^verbatim>\<open>elf/elf.go\<close>.\<close>

record ELFHeader =
  hdr_Magic :: "byte list"
  hdr_Class :: byte
  hdr_Data :: byte
  hdr_Version :: byte
  hdr_OSABI :: byte
  hdr_ABIVersion :: byte
  hdr_Padding :: "byte list"
  hdr_Type :: "16 word"
  hdr_Machine :: "16 word"
  hdr_Version32 :: "32 word"
  hdr_Entry64 :: "64 word"
  hdr_PhOff64 :: "64 word"
  hdr_ShOff64 :: "64 word"
  hdr_Flags :: "32 word"
  hdr_EhSize :: "16 word"
  hdr_PhentSize :: "16 word"
  hdr_PhNum :: "16 word"
  hdr_ShentSize :: "16 word"
  hdr_ShNum :: "16 word"
  hdr_ShStrndx :: "16 word"

record Segment =
  seg_Type :: "32 word"
  seg_Flags :: "32 word"
  seg_Offset :: "64 word"
  seg_VAddr :: "64 word"
  seg_PAddr :: "64 word"
  seg_FileSz :: "64 word"
  seg_MemSz :: "64 word"
  seg_Align :: "64 word"

record ELF =
  elf_Class :: string
  elf_Data :: string
  elf_Version :: "32 word"
  elf_OSABI :: string
  elf_Type :: string
  elf_Machine :: string
  elf_Entry :: "64 word"
  elf_Header :: ELFHeader
  elf_Sections :: "Section list"
  elf_Segments :: "Segment list"
  elf_Symbols :: "Symbol list"
  elf_StringTable :: "byte list"

definition zero_ELFHeader :: ELFHeader where
  "zero_ELFHeader = \<lparr>hdr_Magic = replicate 4 CHR 0x00, hdr_Class = CHR 0x00, hdr_Data = CHR 0x00,
     hdr_Version = CHR 0x00, hdr_OSABI = CHR 0x00, hdr_ABIVersion = CHR 0x00,
     hdr_Padding = replicate 7 CHR 0x00, hdr_Type = 0, hdr_Machine = 0, hdr_Version32 = 0,
     hdr_Entry64 = 0, hdr_PhOff64 = 0, hdr_ShOff64 = 0, hdr_Flags = 0, hdr_EhSize = 0,
     hdr_PhentSize = 0, hdr_PhNum = 0, hdr_ShentSize = 0, hdr_ShNum = 0, hdr_ShStrndx = 0\<rparr>"

definition zero_ELF :: ELF where
  "zero_ELF = \<lparr>elf_Class = [], elf_Data = [], elf_Version = 0, elf_OSABI = [], elf_Type = [],
     elf_Machine = [], elf_Entry = 0, elf_Header = zero_ELFHeader, elf_Sections = [],
     elf_Segments = [], elf_Symbols = [], elf_StringTable = []\<rparr>"









section \<open>Readers\<close>

text \<open>
  The parser reads from an \<^verbatim>\<open>io.ReadSeeker\<close>, in the tools an opened file and in the tests
  a \<^verbatim>\<open>bytes.Reader\<close>: the bytes of the file and the current offset.
\<close>

record Reader =
  rd_data :: "byte list"
  rd_pos :: nat

definition NewReader :: "byte list \<Rightarrow> Reader" where
  "NewReader b = \<lparr>rd_data = b, rd_pos = 0\<rparr>"

text \<open>
  \<^verbatim>\<open>Seek(offset, io.SeekStart)\<close> fails on a negative offset and otherwise sets the offset,
  also beyond the end of the data.
\<close>

definition Seek :: "Reader \<Rightarrow> int \<Rightarrow> Reader option" where
  "Seek r offset = (if offset < 0 then None else Some (r\<lparr>rd_pos := nat offset\<rparr>))"

text \<open>
  \<^verbatim>\<open>Read(buf)\<close> into a fresh buffer of \<open>n > 0\<close> zero bytes: at the end of the data it
  reads nothing and returns \<^verbatim>\<open>io.EOF\<close>; otherwise it copies the bytes that are left, at
  most \<open>n\<close>, and returns no error. \<open>rr_buf\<close> is the buffer afterwards, \<open>rr_n\<close> the count
  and \<open>rr_eof\<close> says that the error is \<^verbatim>\<open>io.EOF\<close>, the only error of such a reader.
\<close>

record ReadResult =
  rr_buf :: "byte list"
  rr_n :: nat
  rr_eof :: bool
  rr_reader :: Reader

definition Read :: "Reader \<Rightarrow> nat \<Rightarrow> ReadResult" where
  "Read r n =
     (let avail = drop (rd_pos r) (rd_data r) in
      if avail = []
      then \<lparr>rr_buf = replicate n CHR 0x00, rr_n = 0, rr_eof = True, rr_reader = r\<rparr>
      else
        let got = take n avail in
        \<lparr>rr_buf = got @ replicate (n - length got) CHR 0x00, rr_n = length got,
         rr_eof = False, rr_reader = r\<lparr>rd_pos := rd_pos r + length got\<rparr>\<rparr>)"

text \<open>
  \<^verbatim>\<open>io.ReadFull\<close>, which \<^verbatim>\<open>binary.Read\<close> uses as well: exactly \<open>n\<close> bytes, or an error
  (\<open>None\<close>) when fewer are left.
\<close>

definition ReadFull :: "Reader \<Rightarrow> nat \<Rightarrow> byte list option \<times> Reader" where
  "ReadFull r n =
     (let avail = drop (rd_pos r) (rd_data r) in
      if n \<le> length avail then (Some (take n avail), r\<lparr>rd_pos := rd_pos r + n\<rparr>)
      else (None, r\<lparr>rd_pos := rd_pos r + length avail\<rparr>))"

section \<open>Byte order\<close>

text \<open>
  \<^verbatim>\<open>binary.LittleEndian\<close> and \<^verbatim>\<open>binary.BigEndian\<close> with their methods \<^verbatim>\<open>Uint16\<close>,
  \<^verbatim>\<open>Uint32\<close> and \<^verbatim>\<open>Uint64\<close>; \<open>slice b lo hi\<close> is \<^verbatim>\<open>b[lo:hi]\<close>. All callers pass
  slices of fixed-size buffers that are long enough.
\<close>

datatype ByteOrder = LittleEndian | BigEndian

fun le_word :: "byte list \<Rightarrow> 'a::len word" where
  "le_word [] = 0"
| "le_word (b # bs) = of_char b + 256 * le_word bs"

definition order_word :: "ByteOrder \<Rightarrow> byte list \<Rightarrow> 'a::len word" where
  "order_word order b = (case order of LittleEndian \<Rightarrow> le_word b | BigEndian \<Rightarrow> le_word (rev b))"

definition slice :: "'a list \<Rightarrow> nat \<Rightarrow> nat \<Rightarrow> 'a list" where
  "slice b lo hi = take (hi - lo) (drop lo b)"

definition Uint16 :: "ByteOrder \<Rightarrow> byte list \<Rightarrow> 16 word" where
  "Uint16 order b = order_word order (take 2 b)"

definition Uint32 :: "ByteOrder \<Rightarrow> byte list \<Rightarrow> 32 word" where
  "Uint32 order b = order_word order (take 4 b)"

definition Uint64 :: "ByteOrder \<Rightarrow> byte list \<Rightarrow> 64 word" where
  "Uint64 order b = order_word order (take 8 b)"

section \<open>Package elf: code tables\<close>

text \<open>
  Each table is a map literal with a fallback that prints the code
  (\<^verbatim>\<open>fmt.Sprintf("ET_UNKNOWN(%d)", t)\<close>, \<^verbatim>\<open>"EM_UNKNOWN(0x%02x)"\<close>, and so on).
\<close>

definition GetELFType :: "16 word \<Rightarrow> string" where
  "GetELFType t =
     (case map_of [(0, ''ET_NONE''), (1, ''ET_REL''), (2, ''ET_EXEC''), (3, ''ET_DYN''),
                   (4, ''ET_CORE'')] t of
        Some name \<Rightarrow> name
      | None \<Rightarrow> ''ET_UNKNOWN('' @ fmt_d (uint t) @ '')'')"

definition GetMachine :: "16 word \<Rightarrow> string" where
  "GetMachine m =
     (case map_of [(0x00, ''EM_NONE''), (0x02, ''EM_SPARC''), (0x03, ''EM_386''),
                   (0x08, ''EM_MIPS''), (0x14, ''EM_PPC''), (0x28, ''EM_ARM''),
                   (0x3E, ''EM_X86_64''), (0xB7, ''EM_AARCH64'')] m of
        Some name \<Rightarrow> name
      | None \<Rightarrow> ''EM_UNKNOWN(0x'' @ fmt_x 2 (unat m) @ '')'')"

definition GetOSABI :: "byte \<Rightarrow> string" where
  "GetOSABI abi =
     (case map_of [(0x00, ''ELFOSABI_NONE''), (0x01, ''ELFOSABI_HPUX''),
                   (0x02, ''ELFOSABI_NETBSD''), (0x03, ''ELFOSABI_LINUX''),
                   (0x06, ''ELFOSABI_SOLARIS''), (0x07, ''ELFOSABI_AIX''),
                   (0x08, ''ELFOSABI_IRIX''), (0x09, ''ELFOSABI_FREEBSD''),
                   (0x0C, ''ELFOSABI_OPENBSD'')] (of_char abi :: nat) of
        Some name \<Rightarrow> name
      | None \<Rightarrow> ''ELFOSABI_UNKNOWN(0x'' @ fmt_x 2 (of_char abi) @ '')'')"

definition GetSymbolType :: "8 word \<Rightarrow> string" where
  "GetSymbolType t =
     (case map_of [(0, ''STT_NOTYPE''), (1, ''STT_OBJECT''), (2, ''STT_FUNC''),
                   (3, ''STT_SECTION''), (4, ''STT_FILE''), (10, ''STT_COMMON''),
                   (13, ''STT_TLS'')] t of
        Some name \<Rightarrow> name
      | None \<Rightarrow> ''STT_UNKNOWN('' @ fmt_d (uint t) @ '')'')"

definition GetSymbolBinding :: "8 word \<Rightarrow> string" where
  "GetSymbolBinding b =
     (case map_of [(0, ''STB_LOCAL''), (1, ''STB_GLOBAL''), (2, ''STB_WEAK'')] b of
        Some name \<Rightarrow> name
      | None \<Rightarrow> ''STB_UNKNOWN('' @ fmt_d (uint b) @ '')'')"


section \<open>Package elf: the parser\<close>

text \<open>
  The errors of \<^verbatim>\<open>ParseELF\<close>, \<^verbatim>\<open>parseSections\<close> and \<^verbatim>\<open>parseSymbols\<close>, one
  constructor for each \<^verbatim>\<open>fmt.Errorf\<close> of the source, with the number it prints.
  \<open>ReadHeaderFailed\<close> and \<open>ReadStringTableFailed\<close> guard \<^verbatim>\<open>err != nil && err != io.EOF\<close>,
  which a reader whose only error is \<^verbatim>\<open>io.EOF\<close> never meets. \<open>IndexPanic\<close> is a run-time
  panic of an index expression.
\<close>

datatype elf_error =
    ReadMagicFailed
  | InvalidMagic
  | SeekFailed
  | ReadClassFailed
  | ReadHeaderFailed
  | InvalidClass nat
  | InvalidDataEncoding nat
  | ParseSectionsFailed elf_error
  | SeekSectionsFailed
  | InvalidSectionCount nat
  | ReadSectionHeaderFailed
  | StringTableTooLarge nat
  | SeekStringTableFailed
  | ReadStringTableFailed
  | SymbolTableTooLarge nat
  | SeekSymbolsFailed
  | IndexPanic

text \<open>
  The allocations whose size comes from a field of the input
  (\<^verbatim>\<open>make([]Section, elf.Header.ShNum)\<close>, \<^verbatim>\<open>make([]byte, strSection.Size)\<close>,
  \<^verbatim>\<open>make([]Symbol, numSymbols)\<close>, \<^verbatim>\<open>make([]byte, strtabSection.Size)\<close>) are logged in
  the order in which they happen. The state of the two sub-parsers is the reader, the
  \<^verbatim>\<open>*ELF\<close> they fill in place, and that log.
\<close>

datatype alloc =
    MakeSections nat
  | MakeStringTable nat
  | MakeSymbols nat
  | MakeStrtab nat

record pstate =
  st_r :: Reader
  st_elf :: ELF
  st_allocs :: "alloc list"

text \<open>
  The bodies of the loop over the section headers: a 40-byte header of a 32-bit file
  and a 64-byte header of a 64-bit file. The name is \<^verbatim>\<open>fmt.Sprintf("section_%d", i)\<close>.
\<close>

definition decode_section32 :: "ByteOrder \<Rightarrow> nat \<Rightarrow> byte list \<Rightarrow> Section" where
  "decode_section32 endian i shBytes =
     zero_Section\<lparr>
       sec_Name := ''section_'' @ fmt_d (int i),
       sec_Type := Uint32 endian (slice shBytes 4 8),
       sec_Flags := ucast (Uint32 endian (slice shBytes 8 12)),
       sec_Addr := ucast (Uint32 endian (slice shBytes 12 16)),
       sec_Offset := ucast (Uint32 endian (slice shBytes 16 20)),
       sec_Size := ucast (Uint32 endian (slice shBytes 20 24)),
       sec_Link := Uint32 endian (slice shBytes 24 28),
       sec_Info := Uint32 endian (slice shBytes 28 32),
       sec_AddrAlign := ucast (Uint32 endian (slice shBytes 32 36)),
       sec_EntSize := ucast (Uint32 endian (slice shBytes 36 40))\<rparr>"

definition decode_section64 :: "ByteOrder \<Rightarrow> nat \<Rightarrow> byte list \<Rightarrow> Section" where
  "decode_section64 endian i shBytes =
     zero_Section\<lparr>
       sec_Name := ''section_'' @ fmt_d (int i),
       sec_Type := Uint32 endian (slice shBytes 4 8),
       sec_Flags := Uint64 endian (slice shBytes 8 16),
       sec_Addr := Uint64 endian (slice shBytes 16 24),
       sec_Offset := Uint64 endian (slice shBytes 24 32),
       sec_Size := Uint64 endian (slice shBytes 32 40),
       sec_Link := Uint32 endian (slice shBytes 40 44),
       sec_Info := Uint32 endian (slice shBytes 44 48),
       sec_AddrAlign := Uint64 endian (slice shBytes 48 56),
       sec_EntSize := Uint64 endian (slice shBytes 56 64)\<rparr>"

text \<open>
  \<^verbatim>\<open>for i := uint16(0); i < elf.Header.ShNum; i++\<close>: a failed \<^verbatim>\<open>Read\<close> returns the
  error.
\<close>

function read_section_headers ::
  "ByteOrder \<Rightarrow> nat \<Rightarrow> nat \<Rightarrow> pstate \<Rightarrow> elf_error option \<times> pstate" where
  "read_section_headers endian i shnum s =
     (if i < shnum then
        (if elf_Class (st_elf s) = ''ELF32'' then
           (let rd = Read (st_r s) 40 in
            if rr_eof rd then (Some ReadSectionHeaderFailed, s\<lparr>st_r := rr_reader rd\<rparr>)
            else read_section_headers endian (i + 1) shnum
                   (s\<lparr>st_r := rr_reader rd,
                      st_elf := (st_elf s)\<lparr>elf_Sections :=
                        (elf_Sections (st_elf s))[i := decode_section32 endian i (rr_buf rd)]\<rparr>\<rparr>))
         else
           (let rd = Read (st_r s) 64 in
            if rr_eof rd then (Some ReadSectionHeaderFailed, s\<lparr>st_r := rr_reader rd\<rparr>)
            else read_section_headers endian (i + 1) shnum
                   (s\<lparr>st_r := rr_reader rd,
                      st_elf := (st_elf s)\<lparr>elf_Sections :=
                        (elf_Sections (st_elf s))[i := decode_section64 endian i (rr_buf rd)]\<rparr>\<rparr>)))
      else (None, s))"
  by pat_completeness auto
termination
  by (relation "measure (\<lambda>(endian, i, shnum, s). shnum - i)") auto

declare read_section_headers.simps [simp del]

text \<open>
  The loop that updates the section names takes the first four bytes of the name
  \<^verbatim>\<open>section_i\<close> as the offset into the string table.
\<close>

definition rename_section :: "ByteOrder \<Rightarrow> byte list \<Rightarrow> Section \<Rightarrow> Section option" where
  "rename_section endian StringTable sec =
     (case sec_Name sec of
        n0 # n1 # n2 # n3 # _ \<Rightarrow>
          let nameOffset = Uint32 endian [n0, n1, n2, n3] in
          if nameOffset < (word_of_nat (length StringTable) :: 32 word)
          then map_option (\<lambda>name. sec\<lparr>sec_Name := name\<rparr>)
                 (ReadCString (drop (unat nameOffset) StringTable))
          else Some sec
      | _ \<Rightarrow> None)"

fun rename_sections :: "ByteOrder \<Rightarrow> byte list \<Rightarrow> Section list \<Rightarrow> Section list option" where
  "rename_sections endian StringTable [] = Some []"
| "rename_sections endian StringTable (sec # rest) =
     (case rename_section endian StringTable sec of
        None \<Rightarrow> None
      | Some sec' \<Rightarrow> map_option ((#) sec') (rename_sections endian StringTable rest))"

text \<open>The ceiling \<^verbatim>\<open>100*1024*1024\<close> of a string or symbol table.\<close>

definition maxTableBytes :: "64 word" where
  "maxTableBytes = 100 * 1024 * 1024"

definition parseSections :: "ByteOrder \<Rightarrow> pstate \<Rightarrow> elf_error option \<times> pstate" where
  "parseSections endian s =
     (let hdr = elf_Header (st_elf s) in
      if hdr_ShOff64 hdr = 0 then (None, s)
      else
        case Seek (st_r s) (sint (hdr_ShOff64 hdr)) of
          None \<Rightarrow> (Some SeekSectionsFailed, s)
        | Some r1 \<Rightarrow>
            if hdr_ShNum hdr = 0 \<or> hdr_ShNum hdr > 10000
            then (Some (InvalidSectionCount (unat (hdr_ShNum hdr))), s\<lparr>st_r := r1\<rparr>)
            else
              case read_section_headers endian 0 (unat (hdr_ShNum hdr))
                     (s\<lparr>st_r := r1,
                        st_elf := (st_elf s)\<lparr>elf_Sections :=
                          replicate (unat (hdr_ShNum hdr)) zero_Section\<rparr>,
                        st_allocs := st_allocs s @ [MakeSections (unat (hdr_ShNum hdr))]\<rparr>) of
                (Some err, s2) \<Rightarrow> (Some err, s2)
              | (None, s2) \<Rightarrow>
                  if hdr_ShStrndx hdr < hdr_ShNum hdr then
                    (let strSection = elf_Sections (st_elf s2) ! unat (hdr_ShStrndx hdr) in
                     if sec_Offset strSection > 0 \<and> sec_Size strSection > 0 then
                       (if sec_Size strSection > maxTableBytes
                        then (Some (StringTableTooLarge (unat (sec_Size strSection))), s2)
                        else
                          case Seek (st_r s2) (sint (sec_Offset strSection)) of
                            None \<Rightarrow> (Some SeekStringTableFailed, s2)
                          | Some r3 \<Rightarrow>
                              (let rd = Read r3 (unat (sec_Size strSection));
                                   s3 = s2\<lparr>st_r := rr_reader rd,
                                          st_elf := (st_elf s2)\<lparr>elf_StringTable := rr_buf rd\<rparr>,
                                          st_allocs := st_allocs s2 @
                                            [MakeStringTable (unat (sec_Size strSection))]\<rparr>
                               in
                               case rename_sections endian (rr_buf rd)
                                      (elf_Sections (st_elf s2)) of
                                 None \<Rightarrow> (Some IndexPanic, s3)
                               | Some secs \<Rightarrow>
                                   (None, s3\<lparr>st_elf := (st_elf s3)\<lparr>elf_Sections := secs\<rparr>\<rparr>)))
                     else (None, s2))
                  else (None, s2))"


text \<open>
  The bodies of the loop over the symbols: a 16-byte entry of a 32-bit file and a
  24-byte entry of a 64-bit file, then the labels of the type and the binding.
\<close>

definition symbol_name :: "ByteOrder \<Rightarrow> byte list \<Rightarrow> byte list \<Rightarrow> string option" where
  "symbol_name endian strtab symBytes =
     (let nameIdx = Uint32 endian (slice symBytes 0 4) in
      if nameIdx < (word_of_nat (length strtab) :: 32 word)
      then ReadCString (drop (unat nameIdx) strtab)
      else Some [])"

definition symbol_labels :: "Symbol \<Rightarrow> Symbol" where
  "symbol_labels symbol =
     symbol\<lparr>sym_Type := GetSymbolType ((of_char (sym_Info symbol) :: 8 word) AND 0x0f),
            sym_Binding :=
              GetSymbolBinding (drop_bit 4 (of_char (sym_Info symbol) :: 8 word) AND 0x0f)\<rparr>"

definition decode_symbol32 :: "ByteOrder \<Rightarrow> byte list \<Rightarrow> byte list \<Rightarrow> Symbol option" where
  "decode_symbol32 endian strtab symBytes =
     (case symbol_name endian strtab symBytes of
        None \<Rightarrow> None
      | Some name \<Rightarrow>
          Some (symbol_labels (zero_Symbol\<lparr>
            sym_Name := name,
            sym_Value := ucast (Uint32 endian (slice symBytes 4 8)),
            sym_Size := ucast (Uint32 endian (slice symBytes 8 12)),
            sym_Info := symBytes ! 12,
            sym_Other := symBytes ! 13,
            sym_Shndx := Uint16 endian (slice symBytes 14 16)\<rparr>)))"

definition decode_symbol64 :: "ByteOrder \<Rightarrow> byte list \<Rightarrow> byte list \<Rightarrow> Symbol option" where
  "decode_symbol64 endian strtab symBytes =
     (case symbol_name endian strtab symBytes of
        None \<Rightarrow> None
      | Some name \<Rightarrow>
          Some (symbol_labels (zero_Symbol\<lparr>
            sym_Name := name,
            sym_Info := symBytes ! 4,
            sym_Other := symBytes ! 5,
            sym_Shndx := Uint16 endian (slice symBytes 6 8),
            sym_Value := Uint64 endian (slice symBytes 8 16),
            sym_Size := Uint64 endian (slice symBytes 16 24)\<rparr>)))"

text \<open>
  \<^verbatim>\<open>for i := uint64(0); i < numSymbols; i++\<close>: a failed \<^verbatim>\<open>Read\<close> leaves the loop
  (\<^verbatim>\<open>break\<close>) without an error.
\<close>

function read_symbols ::
  "ByteOrder \<Rightarrow> byte list \<Rightarrow> nat \<Rightarrow> nat \<Rightarrow> pstate \<Rightarrow> elf_error option \<times> pstate" where
  "read_symbols endian strtab i numSymbols s =
     (if i < numSymbols then
        (if elf_Class (st_elf s) = ''ELF32'' then
           (let rd = Read (st_r s) 16 in
            if rr_eof rd then (None, s\<lparr>st_r := rr_reader rd\<rparr>)
            else if decode_symbol32 endian strtab (rr_buf rd) = None
            then (Some IndexPanic, s\<lparr>st_r := rr_reader rd\<rparr>)
            else read_symbols endian strtab (i + 1) numSymbols
                   (s\<lparr>st_r := rr_reader rd,
                      st_elf := (st_elf s)\<lparr>elf_Symbols :=
                        (elf_Symbols (st_elf s))
                          [i := the (decode_symbol32 endian strtab (rr_buf rd))]\<rparr>\<rparr>))
         else
           (let rd = Read (st_r s) 24 in
            if rr_eof rd then (None, s\<lparr>st_r := rr_reader rd\<rparr>)
            else if decode_symbol64 endian strtab (rr_buf rd) = None
            then (Some IndexPanic, s\<lparr>st_r := rr_reader rd\<rparr>)
            else read_symbols endian strtab (i + 1) numSymbols
                   (s\<lparr>st_r := rr_reader rd,
                      st_elf := (st_elf s)\<lparr>elf_Symbols :=
                        (elf_Symbols (st_elf s))
                          [i := the (decode_symbol64 endian strtab (rr_buf rd))]\<rparr>\<rparr>)))
      else (None, s))"
  by pat_completeness auto
termination
  by (relation "measure (\<lambda>(endian, strtab, i, numSymbols, s). numSymbols - i)") auto

declare read_symbols.simps [simp del]

text \<open>
  \<^verbatim>\<open>parseSymbols\<close>. The symbol table is the first section of type 2, its string table
  the first section of type 3 whose \<^verbatim>\<open>Link\<close> equals the symbol table's \<^verbatim>\<open>Info\<close>. A
  count above 100000 is replaced by 100000.
\<close>

definition maxSymbols :: "64 word" where
  "maxSymbols = 100000"

definition parseSymbols :: "ByteOrder \<Rightarrow> pstate \<Rightarrow> elf_error option \<times> pstate" where
  "parseSymbols endian s =
     (case find (\<lambda>sec. sec_Type sec = 2) (elf_Sections (st_elf s)) of
        None \<Rightarrow> (None, s)
      | Some symtabSection \<Rightarrow>
          if sec_Size symtabSection = 0 \<or> sec_EntSize symtabSection = 0 then (None, s)
          else if sec_Size symtabSection > maxTableBytes
          then (Some (SymbolTableTooLarge (unat (sec_Size symtabSection))), s)
          else
            case Seek (st_r s) (sint (sec_Offset symtabSection)) of
              None \<Rightarrow> (Some SeekSymbolsFailed, s)
            | Some r1 \<Rightarrow>
                let numSymbols0 = sec_Size symtabSection div sec_EntSize symtabSection;
                    numSymbols = (if numSymbols0 > maxSymbols then maxSymbols else numSymbols0);
                    s1 = s\<lparr>st_r := r1,
                           st_elf := (st_elf s)\<lparr>elf_Symbols :=
                             replicate (unat numSymbols) zero_Symbol\<rparr>,
                           st_allocs := st_allocs s @ [MakeSymbols (unat numSymbols)]\<rparr>
                in
                case find (\<lambda>sec. sec_Type sec = 3 \<and> sec_Link sec = sec_Info symtabSection)
                       (elf_Sections (st_elf s)) of
                  None \<Rightarrow> read_symbols endian [] 0 (unat numSymbols) s1
                | Some strtabSection \<Rightarrow>
                    if sec_Size strtabSection > 0 then
                      (if sec_Size strtabSection > maxTableBytes
                       then (Some (StringTableTooLarge (unat (sec_Size strtabSection))), s1)
                       else
                         case Seek (st_r s1) (sint (sec_Offset strtabSection)) of
                           None \<Rightarrow> (Some SeekStringTableFailed, s1)
                         | Some r2 \<Rightarrow>
                             (let rd = Read r2 (unat (sec_Size strtabSection)) in
                              read_symbols endian (rr_buf rd) 0 (unat numSymbols)
                                (s1\<lparr>st_r := rr_reader rd,
                                    st_allocs := st_allocs s1 @
                                      [MakeStrtab (unat (sec_Size strtabSection))]\<rparr>)))
                    else read_symbols endian [] 0 (unat numSymbols) s1)"

text \<open>
  \<^verbatim>\<open>ParseELF\<close>. The local \<^verbatim>\<open>header\<close> starts as the zero value; \<^verbatim>\<open>binary.Read\<close> fills
  \<^verbatim>\<open>header.Magic\<close> (4 bytes) and \<^verbatim>\<open>header.Class\<close> (1 byte), and no statement assigns any
  other field of it. \<^verbatim>\<open>headerBytes\<close> are the 64 bytes from file offset 4. The error of
  \<^verbatim>\<open>parseSymbols\<close> is dropped.
\<close>

definition ELF_magic :: "byte list" where
  "ELF_magic = [CHR 0x7F, CHR ''E'', CHR ''L'', CHR ''F'']"

definition parse_header_fields :: "ByteOrder \<Rightarrow> bool \<Rightarrow> byte list \<Rightarrow> ELF \<Rightarrow> ELF" where
  "parse_header_fields endian is32 headerBytes elf =
     (if is32 then
        (if length headerBytes \<ge> 52 then
           elf\<lparr>elf_Class := ''ELF32'',
               elf_Type := GetELFType (Uint16 endian (slice headerBytes 16 18)),
               elf_Machine := GetMachine (Uint16 endian (slice headerBytes 18 20)),
               elf_Version := Uint32 endian (slice headerBytes 20 24),
               elf_Entry := ucast (Uint32 endian (slice headerBytes 24 28))\<rparr>
         else elf\<lparr>elf_Class := ''ELF32''\<rparr>)
      else
        (if length headerBytes \<ge> 64 then
           elf\<lparr>elf_Class := ''ELF64'',
               elf_Type := GetELFType (Uint16 endian (slice headerBytes 16 18)),
               elf_Machine := GetMachine (Uint16 endian (slice headerBytes 18 20)),
               elf_Version := Uint32 endian (slice headerBytes 20 24),
               elf_Entry := Uint64 endian (slice headerBytes 24 32)\<rparr>
         else elf\<lparr>elf_Class := ''ELF64''\<rparr>))"

definition ParseELF :: "Reader \<Rightarrow> elf_error + ELF" where
  "ParseELF r =
     (case ReadFull r 4 of
        (None, r1) \<Rightarrow> Inl ReadMagicFailed
      | (Some magic, r1) \<Rightarrow>
          if magic \<noteq> ELF_magic then Inl InvalidMagic
          else
            case Seek r1 4 of
              None \<Rightarrow> Inl SeekFailed
            | Some r2 \<Rightarrow>
                (case ReadFull r2 1 of
                   (None, r3) \<Rightarrow> Inl ReadClassFailed
                 | (Some cls, r3) \<Rightarrow>
                     let header = zero_ELFHeader\<lparr>hdr_Magic := magic, hdr_Class := hd cls\<rparr>;
                         endian = (if hdr_Data header = CHR 0x02 then BigEndian else LittleEndian)
                     in
                     case Seek r3 4 of
                       None \<Rightarrow> Inl SeekFailed
                     | Some r4 \<Rightarrow>
                         (let rd = Read r4 64; headerBytes = rr_buf rd; r5 = rr_reader rd in
                              if hdr_Class header \<noteq> CHR 0x01 \<and> hdr_Class header \<noteq> CHR 0x02
                              then Inl (InvalidClass (of_char (hdr_Class header)))
                              else
                                let elf1 = parse_header_fields endian
                                             (hdr_Class header = CHR 0x01) headerBytes zero_ELF
                                in
                                if hdr_Data header \<noteq> CHR 0x01 \<and> hdr_Data header \<noteq> CHR 0x02
                                then Inl (InvalidDataEncoding (of_char (hdr_Data header)))
                                else
                                  let elf2 = elf1\<lparr>
                                        elf_Data := (if hdr_Data header = CHR 0x01
                                                     then ''Little Endian'' else ''Big Endian''),
                                        elf_OSABI := GetOSABI (headerBytes ! 7),
                                        elf_Header := header\<rparr>
                                  in
                                  case parseSections endian
                                         \<lparr>st_r = r5, st_elf = elf2, st_allocs = []\<rparr> of
                                    (Some IndexPanic, s1) \<Rightarrow> Inl IndexPanic
                                  | (Some err, s1) \<Rightarrow> Inl (ParseSectionsFailed err)
                                  | (None, s1) \<Rightarrow>
                                      (case parseSymbols endian s1 of
                                         (Some IndexPanic, s2) \<Rightarrow> Inl IndexPanic
                                       | (_, s2) \<Rightarrow> Inr (st_elf s2)))))"

text \<open>
  A 64-bit relocatable object for x86-64 with one (null) section header at offset 64 and
  no symbol table: the ELF header in little-endian and in big-endian encoding.
\<close>

definition elf64_le_header :: "byte list" where
  "elf64_le_header =
     [CHR 0x7F, CHR 0x45, CHR 0x4C, CHR 0x46, CHR 0x02, CHR 0x01, CHR 0x01, CHR 0x00,
      CHR 0x00, CHR 0x00, CHR 0x00, CHR 0x00, CHR 0x00, CHR 0x00, CHR 0x00, CHR 0x00,
      CHR 0x01, CHR 0x00, CHR 0x3E, CHR 0x00, CHR 0x01, CHR 0x00, CHR 0x00, CHR 0x00,
      CHR 0x00, CHR 0x00, CHR 0x00, CHR 0x00, CHR 0x00, CHR 0x00, CHR 0x00, CHR 0x00,
      CHR 0x00, CHR 0x00, CHR 0x00, CHR 0x00, CHR 0x00, CHR 0x00, CHR 0x00, CHR 0x00,
      CHR 0x40, CHR 0x00, CHR 0x00, CHR 0x00, CHR 0x00, CHR 0x00, CHR 0x00, CHR 0x00,
      CHR 0x00, CHR 0x00, CHR 0x00, CHR 0x00, CHR 0x40, CHR 0x00, CHR 0x00, CHR 0x00,
      CHR 0x00, CHR 0x00, CHR 0x40, CHR 0x00, CHR 0x01, CHR 0x00, CHR 0x00, CHR 0x00]"

definition elf64_be_header :: "byte list" where
  "elf64_be_header =
     [CHR 0x7F, CHR 0x45, CHR 0x4C, CHR 0x46, CHR 0x02, CHR 0x02, CHR 0x01, CHR 0x00,
      CHR 0x00, CHR 0x00, CHR 0x00, CHR 0x00, CHR 0x00, CHR 0x00, CHR 0x00, CHR 0x00,
      CHR 0x00, CHR 0x01, CHR 0x00, CHR 0x3E, CHR 0x00, CHR 0x00, CHR 0x00, CHR 0x01,
      CHR 0x00, CHR 0x00, CHR 0x00, CHR 0x00, CHR 0x00, CHR 0x00, CHR 0x00, CHR 0x00,
      CHR 0x00, CHR 0x00, CHR 0x00, CHR 0x00, CHR 0x00, CHR 0x00, CHR 0x00, CHR 0x00,
      CHR 0x00, CHR 0x00, CHR 0x00, CHR 0x00, CHR 0x00, CHR 0x00, CHR 0x00, CHR 0x40,
      CHR 0x00, CHR 0x00, CHR 0x00, CHR 0x00, CHR 0x00, CHR 0x40, CHR 0x00, CHR 0x00,
      CHR 0x00, CHR 0x00, CHR 0x00, CHR 0x40, CHR 0x00, CHR 0x01, CHR 0x00, CHR 0x00]"

definition null_section_header :: "byte list" where
  "null_section_header = replicate 64 CHR 0x00"

text \<open>The ceilings of section 4.1 of the specification, on the logged allocations.\<close>

fun within_ceiling :: "alloc \<Rightarrow> bool" where
  "within_ceiling (MakeSections n) \<longleftrightarrow> n \<le> 10000"
| "within_ceiling (MakeStringTable n) \<longleftrightarrow> n \<le> 100 * 1024 * 1024"
| "within_ceiling (MakeSymbols n) \<longleftrightarrow> n \<le> 100000"
| "within_ceiling (MakeStrtab n) \<longleftrightarrow> n \<le> 100 * 1024 * 1024"

text \<open>
  States of the sub-parsers with a field over its ceiling: 10001 section headers; a
  section-name string table, a symbol table and a symbol-name string table of 100 MB + 1
  bytes; a symbol table of 100001 entries of 24 bytes.
\<close>

definition st_many_sections :: pstate where
  "st_many_sections =
     \<lparr>st_r = NewReader [],
      st_elf = zero_ELF\<lparr>elf_Class := ''ELF64'',
        elf_Header := zero_ELFHeader\<lparr>hdr_ShOff64 := 64, hdr_ShNum := 10001\<rparr>\<rparr>,
      st_allocs = []\<rparr>"

definition shdr_big_strtab :: "byte list" where
  "shdr_big_strtab =
     replicate 24 CHR 0x00 @
     [CHR 0x40, CHR 0x00, CHR 0x00, CHR 0x00, CHR 0x00, CHR 0x00, CHR 0x00, CHR 0x00] @
     [CHR 0x01, CHR 0x00, CHR 0x40, CHR 0x06, CHR 0x00, CHR 0x00, CHR 0x00, CHR 0x00] @
     replicate 24 CHR 0x00"

definition st_big_shstrtab :: pstate where
  "st_big_shstrtab =
     \<lparr>st_r = NewReader (replicate 8 CHR 0x00 @ shdr_big_strtab),
      st_elf = zero_ELF\<lparr>elf_Class := ''ELF64'',
        elf_Header := zero_ELFHeader\<lparr>hdr_ShOff64 := 8, hdr_ShNum := 1, hdr_ShStrndx := 0\<rparr>\<rparr>,
      st_allocs = []\<rparr>"

definition st_big_symtab :: pstate where
  "st_big_symtab =
     \<lparr>st_r = NewReader [],
      st_elf = zero_ELF\<lparr>elf_Class := ''ELF64'', elf_Sections :=
        [zero_Section\<lparr>sec_Type := 2, sec_Size := 104857601, sec_EntSize := 24\<rparr>]\<rparr>,
      st_allocs = []\<rparr>"

definition st_big_strtab :: pstate where
  "st_big_strtab =
     \<lparr>st_r = NewReader [],
      st_elf = zero_ELF\<lparr>elf_Class := ''ELF64'', elf_Sections :=
        [zero_Section\<lparr>sec_Type := 2, sec_Size := 24, sec_EntSize := 24\<rparr>,
         zero_Section\<lparr>sec_Type := 3, sec_Size := 104857601\<rparr>]\<rparr>,
      st_allocs = []\<rparr>"

definition st_many_symbols :: pstate where
  "st_many_symbols =
     \<lparr>st_r = NewReader [],
      st_elf = zero_ELF\<lparr>elf_Class := ''ELF64'', elf_Sections :=
        [zero_Section\<lparr>sec_Type := 2, sec_Size := 2400024, sec_EntSize := 24\<rparr>]\<rparr>,
      st_allocs = []\<rparr>"

text \<open>
  States in which a field is over its ceiling on a path that does not check it: 10001
  section headers with the section-header offset 0; a section-name string table of
  100 MB + 1 bytes whose section has the file offset 0; a symbol table of 100 MB + 1
  bytes with the entry size 0.
\<close>

definition st_no_shoff :: pstate where
  "st_no_shoff =
     \<lparr>st_r = NewReader [],
      st_elf = zero_ELF\<lparr>elf_Class := ''ELF64'',
        elf_Header := zero_ELFHeader\<lparr>hdr_ShOff64 := 0, hdr_ShNum := 10001\<rparr>\<rparr>,
      st_allocs = []\<rparr>"

definition shdr_strtab_no_offset :: "byte list" where
  "shdr_strtab_no_offset =
     replicate 24 CHR 0x00 @
     [CHR 0x00, CHR 0x00, CHR 0x00, CHR 0x00, CHR 0x00, CHR 0x00, CHR 0x00, CHR 0x00] @
     [CHR 0x01, CHR 0x00, CHR 0x40, CHR 0x06, CHR 0x00, CHR 0x00, CHR 0x00, CHR 0x00] @
     replicate 24 CHR 0x00"

definition st_shstrtab_no_offset :: pstate where
  "st_shstrtab_no_offset =
     \<lparr>st_r = NewReader (replicate 8 CHR 0x00 @ shdr_strtab_no_offset),
      st_elf = zero_ELF\<lparr>elf_Class := ''ELF64'',
        elf_Header := zero_ELFHeader\<lparr>hdr_ShOff64 := 8, hdr_ShNum := 1, hdr_ShStrndx := 0\<rparr>\<rparr>,
      st_allocs = []\<rparr>"

definition st_no_entsize :: pstate where
  "st_no_entsize =
     \<lparr>st_r = NewReader [],
      st_elf = zero_ELF\<lparr>elf_Class := ''ELF64'', elf_Sections :=
        [zero_Section\<lparr>sec_Type := 2, sec_Size := 104857601, sec_EntSize := 0\<rparr>]\<rparr>,
      st_allocs = []\<rparr>"

section \<open>Properties of \<^verbatim>\<open>ReadCString\<close>\<close>

lemma ReadCString_loop_eq:
  "i \<le> length data \<Longrightarrow> \<forall>j < i. data ! j \<noteq> CHR 0x00 \<Longrightarrow>
   ReadCString_loop data i = Some (take i data @ takeWhile (\<lambda>b. b \<noteq> CHR 0x00) (drop i data))"
proof (induction data i rule: ReadCString_loop.induct)
  case (1 data i)
  show ?case
  proof (cases "i < length data")
    case False
    with "1.prems" show ?thesis by simp
  next
    case True
    then have d: "drop i data = data ! i # drop (Suc i) data"
      by (simp add: Cons_nth_drop_Suc)
    show ?thesis
    proof (cases "data ! i = CHR 0x00")
      case z: True
      with True d show ?thesis by (simp add: index_at_def)
    next
      case nz: False
      have all: "\<forall>j < i + 1. data ! j \<noteq> CHR 0x00"
        using "1.prems"(2) nz by (auto simp: less_Suc_eq)
      have "ReadCString_loop data (i + 1) =
            Some (take (i + 1) data @ takeWhile (\<lambda>b. b \<noteq> CHR 0x00) (drop (i + 1) data))"
        using "1.IH" [of "data ! i"] True nz all by (simp add: index_at_def)
      moreover have "ReadCString_loop data i = ReadCString_loop data (i + 1)"
        using True nz by (simp add: index_at_def)
      ultimately show ?thesis
        using True nz d by (simp add: take_Suc_conv_app_nth)
    qed
  qed
qed

text \<open>
  Claim C10. \<^verbatim>\<open>ReadCString\<close> returns on every byte slice without an
  out-of-range index (the result is never the panic value): it returns the bytes
  strictly before the first zero byte, and the whole slice when there is no zero byte.
\<close>

theorem ReadCString_total_prefix:
  "ReadCString data = Some (takeWhile (\<lambda>b. b \<noteq> CHR 0x00) data) \<and>
   (if CHR 0x00 \<in> set data
    then (\<exists>rest. data = the (ReadCString data) @ CHR 0x00 # rest \<and>
                  CHR 0x00 \<notin> set (the (ReadCString data)))
    else ReadCString data = Some data)"
proof -
  have eq: "ReadCString data = Some (takeWhile (\<lambda>b. b \<noteq> CHR 0x00) data)"
    using ReadCString_loop_eq [of 0 data] by (simp add: ReadCString_def)
  show ?thesis
  proof (cases "CHR 0x00 \<in> set data")
    case False
    then have "\<forall>x \<in> set data. x \<noteq> CHR 0x00"
      by blast
    then have tw: "takeWhile (\<lambda>b. b \<noteq> CHR 0x00) data = data"
      by (rule takeWhile_eq_all_conv [THEN iffD2])
    show ?thesis
      unfolding eq tw using False by simp
  next
    case True
    then have ne: "dropWhile (\<lambda>b. b \<noteq> CHR 0x00) data \<noteq> []"
      by (simp add: dropWhile_eq_Nil_conv)
    then obtain c rest where dw: "dropWhile (\<lambda>b. b \<noteq> CHR 0x00) data = c # rest"
      by (cases "dropWhile (\<lambda>b. b \<noteq> CHR 0x00) data") simp_all
    have "\<not> (hd (dropWhile (\<lambda>b. b \<noteq> CHR 0x00) data) \<noteq> CHR 0x00)"
      using ne by (rule hd_dropWhile)
    then have c: "c = CHR 0x00"
      using dw by simp
    have split: "data = takeWhile (\<lambda>b. b \<noteq> CHR 0x00) data @ CHR 0x00 # rest"
      using takeWhile_dropWhile_id [of "\<lambda>b. b \<noteq> CHR 0x00" data] dw c by simp
    have nz: "CHR 0x00 \<notin> set (takeWhile (\<lambda>b. b \<noteq> CHR 0x00) data)"
      using set_takeWhileD [of "CHR 0x00" "\<lambda>b. b \<noteq> CHR 0x00" data] by blast
    have "\<exists>rest. data = takeWhile (\<lambda>b. b \<noteq> CHR 0x00) data @ CHR 0x00 # rest \<and>
                 CHR 0x00 \<notin> set (takeWhile (\<lambda>b. b \<noteq> CHR 0x00) data)"
      using split nz by blast
    then show ?thesis
      unfolding eq using True by simp
  qed
qed

section \<open>Properties of the assembler\<close>

lemma generateCode_loop_length:
  "length (generateCode_loop instructions code) = length code + length instructions"
  by (induction instructions arbitrary: code) (simp_all add: encode_opcode_def)

lemma generateCode_length: "length (generateCode instructions) = length instructions"
  by (simp add: generateCode_def generateCode_loop_length)

text \<open>
  The byte offset of the instruction with index \<open>k\<close> is the length of the code
  generated for the instructions before it, which is \<open>k\<close>; the symbol of a labelled
  instruction with index \<open>k\<close> has the value \<open>4 * k\<close>.
\<close>

lemma generateCode_offset:
  "k \<le> length instructions \<Longrightarrow> length (generateCode (take k instructions)) = k"
  by (simp add: generateCode_length)

lemma generateSymbols_loop_values:
  "map sym_Value (generateSymbols_loop instructions i symbols) =
   map sym_Value symbols @
   map (\<lambda>k. word_of_nat ((i + k) * 4))
     (filter (\<lambda>k. Label (instructions ! k) \<noteq> []) [0 ..< length instructions])"
proof (induction instructions arbitrary: i symbols)
  case Nil
  then show ?case by simp
next
  case (Cons inst rest)
  have upt: "[0 ..< length (inst # rest)] = 0 # map Suc [0 ..< length rest]"
    by (simp add: upt_conv_Cons map_Suc_upt del: upt_Suc)
  show ?case
    unfolding upt using Cons.IH [of "Suc i"]
    by (simp add: filter_map comp_def zero_Symbol_def)
qed

definition two_labels :: "Instruction list" where
  "two_labels =
     [\<lparr>Opcode = ''nop'', Operands = [], Label = ''a''\<rparr>,
      \<lparr>Opcode = ''ret'', Operands = [], Label = ''b''\<rparr>]"

text \<open>
  Claim C9 (not met by the code). For the source \<^verbatim>\<open>a: nop\<close>, \<^verbatim>\<open>b: ret\<close> the code
  bytes are \<^verbatim>\<open>90 c3\<close>, so the instruction labelled \<open>b\<close> is at byte offset 1, and
  the symbol \<open>b\<close> has the value 4, beyond the end of the two code bytes. The opcode
  table is total, with \<^verbatim>\<open>0x90\<close> for an unrecognised opcode.
\<close>

theorem generateSymbols_value_not_offset:
  "generateCode two_labels = [CHR 0x90, CHR 0xC3] \<and>
   length (generateCode (take 1 two_labels)) = 1 \<and>
   map sym_Name (generateSymbols two_labels) = [''a'', ''b''] \<and>
   map sym_Value (generateSymbols two_labels) = [0, 4] \<and>
   map sym_Type (generateSymbols two_labels) = [''STT_FUNC'', ''STT_FUNC''] \<and>
   map sym_Binding (generateSymbols two_labels) = [''STB_LOCAL'', ''STB_LOCAL''] \<and>
   encode_opcode ''frob'' = [CHR 0x90]"
  by (simp add: two_labels_def generateCode_def generateSymbols_def encode_opcode_def
      zero_Symbol_def)

section \<open>Properties of symbol resolution\<close>

lemma range_values_fold:
  "fold (\<lambda>k out. case m k of Some j \<Rightarrow> out @ [xs ! j] | None \<Rightarrow> out) keys acc =
   acc @ concat (map (\<lambda>k. case m k of Some j \<Rightarrow> [xs ! j] | None \<Rightarrow> []) keys)"
  by (induction keys arbitrary: acc) (auto split: option.splits)

lemma range_values_map:
  "set keys \<subseteq> dom m \<Longrightarrow> range_values keys m xs = map (\<lambda>k. xs ! the (m k)) keys"
  unfolding range_values_def range_values_fold
  by (induction keys) (auto split: option.splits)

lemma filter_keyed:
  "distinct keys \<Longrightarrow> \<forall>k \<in> set keys. nm (f k) = k \<Longrightarrow>
   filter (\<lambda>s. nm s = n) (map f keys) = (if n \<in> set keys then [f n] else [])"
  by (induction keys) auto

lemma find_snoc:
  "find P (xs @ [x]) = (case find P xs of Some y \<Rightarrow> Some y | None \<Rightarrow> if P x then Some x else None)"
  by (induction xs) auto

lemma find_SomeD: "find P xs = Some x \<Longrightarrow> P x \<and> x \<in> set xs"
  by (induction xs) (auto split: if_splits)

lemma resolve_step_other:
  "n \<noteq> sym_Name (symbols ! k) \<Longrightarrow> resolve_step symbols m k n = m n"
  by (simp add: resolve_step_def Let_def split: option.splits)

lemma spec_defined_else_first_snoc_other:
  "n \<noteq> sym_Name x \<Longrightarrow> spec_defined_else_first n (xs @ [x]) = spec_defined_else_first n xs"
  by (simp add: spec_defined_else_first_def find_snoc split: option.splits)

lemma resolve_step_same:
  assumes IH: "map_option ((!) symbols) (m (sym_Name (symbols ! k))) =
               spec_defined_else_first (sym_Name (symbols ! k)) xs"
  shows "map_option ((!) symbols) (resolve_step symbols m k (sym_Name (symbols ! k))) =
         spec_defined_else_first (sym_Name (symbols ! k)) (xs @ [symbols ! k])"
proof -
  let ?x = "symbols ! k"
  let ?n = "sym_Name ?x"
  let ?D = "find (\<lambda>s. sym_Name s = ?n \<and> sym_Type s \<noteq> ''STT_NOTYPE'') xs"
  let ?F = "find (\<lambda>s. sym_Name s = ?n) xs"
  show ?thesis
  proof (cases "m ?n")
    case None
    then have "spec_defined_else_first ?n xs = None" using IH by simp
    then have "?D = None" "?F = None"
      by (auto simp: spec_defined_else_first_def split: option.splits)
    then have "spec_defined_else_first ?n (xs @ [?x]) = Some ?x"
      by (simp add: spec_defined_else_first_def find_snoc)
    moreover have "resolve_step symbols m k ?n = Some k"
      using None by (simp add: resolve_step_def Let_def)
    ultimately show ?thesis by simp
  next
    case (Some j)
    then have dj: "spec_defined_else_first ?n xs = Some (symbols ! j)" using IH by simp
    show ?thesis
    proof (cases "sym_Type ?x \<noteq> ''STT_NOTYPE'' \<and> sym_Type (symbols ! j) = ''STT_NOTYPE''")
      case True
      have "?D = None"
      proof (cases ?D)
        case None then show ?thesis .
      next
        case (Some d)
        then have "d = symbols ! j" using dj by (simp add: spec_defined_else_first_def)
        moreover have "sym_Type d \<noteq> ''STT_NOTYPE''" using find_SomeD [OF Some] by simp
        ultimately show ?thesis using True by simp
      qed
      then have "spec_defined_else_first ?n (xs @ [?x]) = Some ?x"
        using True by (simp add: spec_defined_else_first_def find_snoc)
      moreover have "resolve_step symbols m k ?n = Some k"
        using Some True by (simp add: resolve_step_def Let_def)
      ultimately show ?thesis by simp
    next
      case False
      have m': "resolve_step symbols m k ?n = Some j"
        using Some False by (auto simp add: resolve_step_def Let_def)
      have "spec_defined_else_first ?n (xs @ [?x]) = Some (symbols ! j)"
      proof (cases ?D)
        case (Some d)
        then show ?thesis using dj by (simp add: spec_defined_else_first_def find_snoc)
      next
        case None
        then have F: "?F = Some (symbols ! j)" using dj by (simp add: spec_defined_else_first_def)
        have "sym_Name (symbols ! j) = ?n" "symbols ! j \<in> set xs"
          using find_SomeD [OF F] by simp_all
        then have "sym_Type (symbols ! j) = ''STT_NOTYPE''"
          using None by (auto simp: find_None_iff)
        then have "sym_Type ?x = ''STT_NOTYPE''" using False by simp
        then show ?thesis using None F by (simp add: spec_defined_else_first_def find_snoc)
      qed
      then show ?thesis using m' by simp
    qed
  qed
qed

lemma resolve_step_bound:
  "resolve_step symbols m k n = Some j \<Longrightarrow> (\<And>j'. m n = Some j' \<Longrightarrow> j' < k) \<Longrightarrow> j < Suc k"
  by (auto simp: resolve_step_def Let_def less_Suc_eq split: option.splits if_splits)

lemma resolve_inv:
  "k \<le> length symbols \<Longrightarrow>
   (\<forall>n. map_option ((!) symbols) (fold (\<lambda>i m. resolve_step symbols m i) [0 ..< k] Map.empty n) =
        spec_defined_else_first n (take k symbols)) \<and>
   (\<forall>n j. fold (\<lambda>i m. resolve_step symbols m i) [0 ..< k] Map.empty n = Some j \<longrightarrow> j < k)"
proof (induction k)
  case 0
  then show ?case by (simp add: spec_defined_else_first_def)
next
  case (Suc k)
  let ?m = "fold (\<lambda>i m. resolve_step symbols m i) [0 ..< k] Map.empty"
  have k: "k < length symbols" using Suc.prems by simp
  have IH1: "\<And>n. map_option ((!) symbols) (?m n) = spec_defined_else_first n (take k symbols)"
    and IH2: "\<And>n j. ?m n = Some j \<Longrightarrow> j < k"
    using Suc.IH k by auto
  have tk: "take (Suc k) symbols = take k symbols @ [symbols ! k]"
    using k by (simp add: take_Suc_conv_app_nth)
  have st: "fold (\<lambda>i m. resolve_step symbols m i) [0 ..< Suc k] Map.empty = resolve_step symbols ?m k"
    by simp
  have A: "map_option ((!) symbols) (resolve_step symbols ?m k n) = spec_defined_else_first n (take (Suc k) symbols)" for n
  proof (cases "n = sym_Name (symbols ! k)")
    case True
    show ?thesis unfolding tk True by (rule resolve_step_same) (rule IH1)
  next
    case False
    show ?thesis unfolding tk
      using resolve_step_other [OF False, of ?m] spec_defined_else_first_snoc_other [OF False, of "take k symbols"]
        IH1 [of n] by simp
  qed
  have B: "resolve_step symbols ?m k n = Some j \<Longrightarrow> j < Suc k" for n j
    by (erule resolve_step_bound) (rule IH2)
  show ?case unfolding st using A B by blast
qed

lemma resolveSymbols_map_winner:
  "map_option ((!) symbols) (resolveSymbols_map symbols n) = spec_defined_else_first n symbols"
  using resolve_inv [of "length symbols" symbols] by (simp add: resolveSymbols_map_def)

lemma spec_defined_else_first_name:
  "spec_defined_else_first n symbols = Some s \<Longrightarrow> sym_Name s = n"
  by (auto simp: spec_defined_else_first_def split: option.splits dest: find_SomeD)

lemma spec_defined_else_first_None:
  "spec_defined_else_first n symbols = None \<longleftrightarrow> n \<notin> sym_Name ` set symbols"
  by (auto simp: spec_defined_else_first_def find_None_iff split: option.splits dest: find_SomeD)

text \<open>
  Claim C4. In whatever order the map is enumerated, the resolved table holds, for every
  name, exactly one symbol when the name occurs in the input and none otherwise; that
  symbol is the first one of that name whose type is not \<^verbatim>\<open>STT_NOTYPE\<close>, and the first
  one of that name when all of them are \<^verbatim>\<open>STT_NOTYPE\<close>.
\<close>

theorem resolveSymbols_one_per_name:
  assumes "distinct keys" and "set keys = dom (resolveSymbols_map symbols)"
  shows "filter (\<lambda>s. sym_Name s = n) (resolveSymbols keys symbols) =
         (case spec_defined_else_first n symbols of Some s \<Rightarrow> [s] | None \<Rightarrow> [])"
proof -
  let ?m = "resolveSymbols_map symbols"
  let ?f = "\<lambda>k. symbols ! the (?m k)"
  have val: "?m k = Some j \<Longrightarrow> spec_defined_else_first k symbols = Some (symbols ! j)" for k j
    using resolveSymbols_map_winner [of symbols k] by simp
  have eq: "resolveSymbols keys symbols = map ?f keys"
    using assms(2) by (simp add: resolveSymbols_def range_values_map)
  have nm: "\<forall>k \<in> set keys. sym_Name (?f k) = k"
  proof
    fix k assume "k \<in> set keys"
    then obtain j where j: "?m k = Some j" using assms(2) by auto
    from val [OF j] show "sym_Name (?f k) = k"
      using j by (simp add: spec_defined_else_first_name)
  qed
  have flt: "filter (\<lambda>s. sym_Name s = n) (map ?f keys) = (if n \<in> set keys then [?f n] else [])"
    using assms(1) nm by (rule filter_keyed)
  show ?thesis
  proof (cases "?m n")
    case None
    then have "n \<notin> set keys" using assms(2) by auto
    moreover have "spec_defined_else_first n symbols = None"
      using resolveSymbols_map_winner [of symbols n] None by simp
    ultimately show ?thesis unfolding eq flt by simp
  next
    case (Some j)
    then have "n \<in> set keys" using assms(2) by auto
    then show ?thesis unfolding eq flt using val [OF Some] Some by simp
  qed
qed

lemma resolveSymbols_map_AB: "resolveSymbols_map (objA @ objB) = [''foo'' \<mapsto> 0]"
  by (simp add: resolveSymbols_map_def resolve_step_def objA_def objB_def zero_Symbol_def upt_rec)
lemma resolveSymbols_map_BA: "resolveSymbols_map (objB @ objA) = [''foo'' \<mapsto> 1]"
  by (simp add: resolveSymbols_map_def resolve_step_def objA_def objB_def zero_Symbol_def upt_rec)

theorem resolveSymbols_one_per_name_witness:
  "distinct [''foo''] \<and> set [''foo''] = dom (resolveSymbols_map (objB @ objA)) \<and>
   filter (\<lambda>s. sym_Name s = ''foo'') (resolveSymbols [''foo''] (objB @ objA)) = objA \<and>
   resolveSymbols [''foo''] (objA @ objB) = objA"
proof -
  have d: "distinct [''foo'']" by simp
  have s: "set [''foo''] = dom (resolveSymbols_map (objB @ objA))"
    by (simp add: resolveSymbols_map_BA)
  have w: "spec_defined_else_first ''foo'' (objB @ objA) = Some (hd objA)"
    by (simp add: spec_defined_else_first_def objA_def objB_def zero_Symbol_def)
  have r: "resolveSymbols [''foo''] (objA @ objB) = objA"
    by (simp add: resolveSymbols_def range_values_def resolveSymbols_map_AB) (simp add: objA_def)
  show ?thesis
    using resolveSymbols_one_per_name [OF d s, of "''foo''"] d s w r by (simp add: objA_def)
qed

section \<open>Properties of section merging\<close>

text \<open>
  With payloads in arrays of their own the two \<^verbatim>\<open>.text\<close> sections of sizes 10 and 20
  give one \<^verbatim>\<open>.text\<close> section of size 30 whose bytes are the two payloads in input order,
  whatever capacity the runtime gives the new array.
\<close>

lemma mergeSections_text_example:
  "30 \<le> growcap 10 30 \<Longrightarrow>
   map sec_Name (snd (mergeSections [''.text''] growcap text_heap [text10, text20])) = [''.text''] \<and>
   map sec_Size (snd (mergeSections [''.text''] growcap text_heap [text10, text20])) = [30] \<and>
   merged_payloads ''.text'' (mergeSections [''.text''] growcap text_heap [text10, text20]) =
     [''0123456789abcdefghijklmnopqrst'']"
  by (simp add: mergeSections_def mergeSections_loop_def merge_step_def append_slice_def
      slice_bytes_def merged_payloads_def range_values_def text_heap_def text10_def text20_def
      zero_Section_def Let_def upt_rec)


section \<open>Properties of the symbol lister\<close>













section \<open>Properties of the parser\<close>

text \<open>
  \<^verbatim>\<open>header.Data\<close> is never read from the file, so the check of the data encoding sees
  0 and every call returns an error.
\<close>

lemma ParseELF_never_succeeds: "ParseELF r \<noteq> Inr elf"
  by (simp add: ParseELF_def zero_ELFHeader_def Let_def split: prod.splits option.splits)


text \<open>
  Claim C1 (not met by the code). A well-formed little-endian ELF64 file with one section
  header and no symbols is rejected with \<^verbatim>\<open>invalid data encoding: 0\<close>, where the claim
  has a model with one section and no symbols.
\<close>

theorem ParseELF_rejects_valid_elf64:
  "ParseELF (NewReader (elf64_le_header @ null_section_header)) = Inl (InvalidDataEncoding 0)"
  by (simp add: ParseELF_def ReadFull_def Seek_def Read_def NewReader_def ELF_magic_def
      zero_ELFHeader_def elf64_le_header_def Let_def)

text \<open>
  Claim C2 (not met by the code). The same logical header in big-endian encoding (data
  byte 2) and in little-endian encoding (data byte 1): both are rejected with
  \<^verbatim>\<open>invalid data encoding: 0\<close>, so no field values are produced and the data byte of the
  file selects nothing.
\<close>

theorem ParseELF_ignores_data_encoding:
  "elf64_be_header ! 5 = CHR 0x02 \<and> elf64_le_header ! 5 = CHR 0x01 \<and>
   ParseELF (NewReader (elf64_be_header @ null_section_header)) = Inl (InvalidDataEncoding 0) \<and>
   ParseELF (NewReader (elf64_le_header @ null_section_header)) = Inl (InvalidDataEncoding 0)"
  by (simp add: ParseELF_def ReadFull_def Seek_def Read_def NewReader_def ELF_magic_def
      zero_ELFHeader_def elf64_le_header_def elf64_be_header_def Let_def)

lemma read_section_headers_allocs:
  "st_allocs (snd (read_section_headers endian i shnum s)) = st_allocs s"
proof (induction endian i shnum s rule: read_section_headers.induct)
  case (1 endian i shnum s)
  show ?case
    apply (subst read_section_headers.simps)
    using 1 apply (simp add: Let_def)
    done
qed

lemma read_symbols_allocs:
  "st_allocs (snd (read_symbols endian strtab i numSymbols s)) = st_allocs s"
proof (induction endian strtab i numSymbols s rule: read_symbols.induct)
  case (1 endian strtab i numSymbols s)
  show ?case
    apply (subst read_symbols.simps)
    using 1 apply (simp add: Let_def)
    done
qed

lemma unat_le_maxTableBytes:
  "\<not> maxTableBytes < (x :: 64 word) \<Longrightarrow> unat x \<le> 104857600"
  by (simp add: maxTableBytes_def word_less_nat_alt)

lemma unat_le_10000:
  "\<not> 10000 < (x :: 16 word) \<Longrightarrow> unat x \<le> 10000"
  by (simp add: word_less_nat_alt)

lemma parseSections_allocs:
  "\<exists>new. st_allocs (snd (parseSections endian s)) = st_allocs s @ new \<and>
         list_all within_ceiling new"
proof -
  let ?hdr = "elf_Header (st_elf s)"
  show ?thesis
  proof (cases "hdr_ShOff64 ?hdr = 0 \<or> Seek (st_r s) (sint (hdr_ShOff64 ?hdr)) = None \<or>
                hdr_ShNum ?hdr = 0 \<or> hdr_ShNum ?hdr > 10000")
    case True
    then have "st_allocs (snd (parseSections endian s)) = st_allocs s"
      by (auto simp: parseSections_def Let_def split: option.splits)
    then show ?thesis by simp
  next
    case False
    then obtain r1 where r1: "Seek (st_r s) (sint (hdr_ShOff64 ?hdr)) = Some r1" by auto
    let ?s1 = "s\<lparr>st_r := r1,
                  st_elf := (st_elf s)\<lparr>elf_Sections := replicate (unat (hdr_ShNum ?hdr)) zero_Section\<rparr>,
                  st_allocs := st_allocs s @ [MakeSections (unat (hdr_ShNum ?hdr))]\<rparr>"
    obtain res s2 where rs: "read_section_headers endian 0 (unat (hdr_ShNum ?hdr)) ?s1 = (res, s2)"
      by (cases "read_section_headers endian 0 (unat (hdr_ShNum ?hdr)) ?s1")
    have a2: "st_allocs s2 = st_allocs s @ [MakeSections (unat (hdr_ShNum ?hdr))]"
      using read_section_headers_allocs [of endian 0 "unat (hdr_ShNum ?hdr)" ?s1] rs by simp
    have n: "unat (hdr_ShNum ?hdr) \<le> 10000"
      using False by (simp add: unat_le_10000)
    have "st_allocs (snd (parseSections endian s)) = st_allocs s2 \<or>
          (\<exists>sz. st_allocs (snd (parseSections endian s)) = st_allocs s2 @ [MakeStringTable sz] \<and>
                sz \<le> 100 * 1024 * 1024)"
      using False r1 rs
      by (auto simp: parseSections_def Let_def unat_le_maxTableBytes
               split: option.splits prod.splits)
    then show ?thesis using a2 n by auto
  qed
qed


lemma read_symbols_length:
  "length (elf_Symbols (st_elf (snd (read_symbols endian strtab i numSymbols s)))) =
   length (elf_Symbols (st_elf s))"
proof (induction endian strtab i numSymbols s rule: read_symbols.induct)
  case (1 endian strtab i numSymbols s)
  show ?case
    apply (subst read_symbols.simps)
    using 1 apply (simp add: Let_def)
    done
qed

lemma ReadCString_Some: "ReadCString data = Some (takeWhile (\<lambda>b. b \<noteq> CHR 0x00) data)"
  using ReadCString_loop_eq [of 0 data] by (simp add: ReadCString_def)

lemma symbol_name_Some: "symbol_name endian strtab symBytes \<noteq> None"
  by (simp add: symbol_name_def Let_def ReadCString_Some)

lemma decode_symbol_Some:
  "decode_symbol32 endian strtab symBytes \<noteq> None"
  "decode_symbol64 endian strtab symBytes \<noteq> None"
  using symbol_name_Some [of endian strtab symBytes]
  by (auto simp: decode_symbol32_def decode_symbol64_def split: option.splits)

lemma read_symbols_no_error:
  "fst (read_symbols endian strtab i numSymbols s) = None"
proof (induction endian strtab i numSymbols s rule: read_symbols.induct)
  case (1 endian strtab i numSymbols s)
  show ?case
    apply (subst read_symbols.simps)
    using 1 apply (simp add: Let_def decode_symbol_Some)
    done
qed

lemma unat_clamped_symbols:
  "unat (if maxSymbols < (n :: 64 word) then maxSymbols else n) \<le> 100000"
  by (simp add: maxSymbols_def word_less_nat_alt)

lemma parseSymbols_allocs:
  "\<exists>new. st_allocs (snd (parseSymbols endian s)) = st_allocs s @ new \<and>
         list_all within_ceiling new"
proof (cases "find (\<lambda>sec. sec_Type sec = 2) (elf_Sections (st_elf s))")
  case None
  then show ?thesis by (simp add: parseSymbols_def)
next
  case (Some symtab)
  show ?thesis
  proof (cases "sec_Size symtab = 0 \<or> sec_EntSize symtab = 0 \<or> sec_Size symtab > maxTableBytes \<or>
                Seek (st_r s) (sint (sec_Offset symtab)) = None")
    case True
    then have "st_allocs (snd (parseSymbols endian s)) = st_allocs s"
      using Some by (auto simp: parseSymbols_def split: option.splits)
    then show ?thesis by simp
  next
    case False
    then obtain r1 where r1: "Seek (st_r s) (sint (sec_Offset symtab)) = Some r1" by auto
    let ?n = "unat (if maxSymbols < sec_Size symtab div sec_EntSize symtab then maxSymbols
                    else sec_Size symtab div sec_EntSize symtab)"
    have n: "?n \<le> 100000" by (rule unat_clamped_symbols)
    have "st_allocs (snd (parseSymbols endian s)) = st_allocs s @ [MakeSymbols ?n] \<or>
          (\<exists>sz. st_allocs (snd (parseSymbols endian s)) =
                  st_allocs s @ [MakeSymbols ?n, MakeStrtab sz] \<and> sz \<le> 104857600)"
      using False r1 Some
      by (auto simp: parseSymbols_def Let_def read_symbols_allocs unat_le_maxTableBytes
               split: option.splits)
    then show ?thesis using n by auto
  qed
qed

lemma parseSections_count_error:
  assumes "hdr_ShOff64 (elf_Header (st_elf s)) \<noteq> 0"
    and "0 \<le> sint (hdr_ShOff64 (elf_Header (st_elf s)))"
    and "10000 < hdr_ShNum (elf_Header (st_elf s))"
  shows "fst (parseSections endian s) =
           Some (InvalidSectionCount (unat (hdr_ShNum (elf_Header (st_elf s))))) \<and>
         st_allocs (snd (parseSections endian s)) = st_allocs s \<and>
         st_elf (snd (parseSections endian s)) = st_elf s"
  using assms by (simp add: parseSections_def Seek_def Let_def)

lemma parseSymbols_size_error:
  assumes "find (\<lambda>sec. sec_Type sec = 2) (elf_Sections (st_elf s)) = Some symtab"
    and "sec_EntSize symtab \<noteq> 0" and "maxTableBytes < sec_Size symtab"
  shows "parseSymbols endian s = (Some (SymbolTableTooLarge (unat (sec_Size symtab))), s)"
proof -
  have "sec_Size symtab \<noteq> 0" using assms(3) by (auto simp: maxTableBytes_def)
  then show ?thesis using assms by (simp add: parseSymbols_def)
qed

lemma parseSymbols_clamps:
  assumes "find (\<lambda>sec. sec_Type sec = 2) (elf_Sections (st_elf s)) = Some symtab"
    and "sec_EntSize symtab \<noteq> 0" and "sec_Size symtab \<le> maxTableBytes"
    and "0 \<le> sint (sec_Offset symtab)"
    and "maxSymbols < sec_Size symtab div sec_EntSize symtab"
  shows "length (elf_Symbols (st_elf (snd (parseSymbols endian s)))) = 100000 \<and>
         (\<exists>rest. st_allocs (snd (parseSymbols endian s)) = st_allocs s @ MakeSymbols 100000 # rest) \<and>
         (find (\<lambda>sec. sec_Type sec = 3 \<and> sec_Link sec = sec_Info symtab)
            (elf_Sections (st_elf s)) = None \<longrightarrow> fst (parseSymbols endian s) = None)"
proof -
  have nz: "sec_Size symtab \<noteq> 0"
    using assms(5) by (auto simp: maxSymbols_def)
  have le: "\<not> maxTableBytes < sec_Size symtab" using assms(3) by simp
  have u: "unat maxSymbols = 100000" by (simp add: maxSymbols_def)
  show ?thesis
    using assms(1,2,4,5) nz le u
    by (auto simp: parseSymbols_def Seek_def Let_def read_symbols_length read_symbols_allocs
             read_symbols_no_error split: option.splits)
qed


lemma parseSections_strtab_error:
  assumes "hdr_ShOff64 (elf_Header (st_elf s)) \<noteq> 0"
    and "Seek (st_r s) (sint (hdr_ShOff64 (elf_Header (st_elf s)))) = Some r1"
    and "hdr_ShNum (elf_Header (st_elf s)) \<noteq> 0"
    and "hdr_ShNum (elf_Header (st_elf s)) \<le> 10000"
    and "read_section_headers endian 0 (unat (hdr_ShNum (elf_Header (st_elf s))))
           (s\<lparr>st_r := r1,
              st_elf := (st_elf s)\<lparr>elf_Sections :=
                replicate (unat (hdr_ShNum (elf_Header (st_elf s)))) zero_Section\<rparr>,
              st_allocs := st_allocs s @
                [MakeSections (unat (hdr_ShNum (elf_Header (st_elf s))))]\<rparr>) = (None, s2)"
    and "hdr_ShStrndx (elf_Header (st_elf s)) < hdr_ShNum (elf_Header (st_elf s))"
    and "0 < sec_Offset (elf_Sections (st_elf s2) ! unat (hdr_ShStrndx (elf_Header (st_elf s))))"
    and "maxTableBytes <
           sec_Size (elf_Sections (st_elf s2) ! unat (hdr_ShStrndx (elf_Header (st_elf s))))"
  shows "parseSections endian s =
           (Some (StringTableTooLarge (unat (sec_Size
              (elf_Sections (st_elf s2) ! unat (hdr_ShStrndx (elf_Header (st_elf s))))))), s2) \<and>
         st_allocs s2 = st_allocs s @ [MakeSections (unat (hdr_ShNum (elf_Header (st_elf s))))]"
proof -
  have pos: "0 < sec_Size (elf_Sections (st_elf s2) ! unat (hdr_ShStrndx (elf_Header (st_elf s))))"
    using assms(8) by (auto simp: maxTableBytes_def word_less_nat_alt)
  have a: "st_allocs s2 = st_allocs s @ [MakeSections (unat (hdr_ShNum (elf_Header (st_elf s))))]"
    using read_section_headers_allocs [of endian 0 "unat (hdr_ShNum (elf_Header (st_elf s)))"
        "s\<lparr>st_r := r1,
              st_elf := (st_elf s)\<lparr>elf_Sections :=
                replicate (unat (hdr_ShNum (elf_Header (st_elf s)))) zero_Section\<rparr>,
              st_allocs := st_allocs s @
                [MakeSections (unat (hdr_ShNum (elf_Header (st_elf s))))]\<rparr>"] assms(5)
    by simp
  have "\<not> 10000 < hdr_ShNum (elf_Header (st_elf s))" using assms(4) by simp
  then show ?thesis
    using assms(1,2,3,5,6,7,8) pos a by (simp add: parseSections_def Let_def)
qed

lemma parseSymbols_strtab_error:
  assumes "find (\<lambda>sec. sec_Type sec = 2) (elf_Sections (st_elf s)) = Some symtab"
    and "sec_Size symtab \<noteq> 0" and "sec_EntSize symtab \<noteq> 0"
    and "sec_Size symtab \<le> maxTableBytes"
    and "0 \<le> sint (sec_Offset symtab)"
    and "find (\<lambda>sec. sec_Type sec = 3 \<and> sec_Link sec = sec_Info symtab)
           (elf_Sections (st_elf s)) = Some strtabSection"
    and "maxTableBytes < sec_Size strtabSection"
  shows "fst (parseSymbols endian s) =
           Some (StringTableTooLarge (unat (sec_Size strtabSection))) \<and>
         (\<exists>n. st_allocs (snd (parseSymbols endian s)) = st_allocs s @ [MakeSymbols n])"
proof -
  have pos: "0 < sec_Size strtabSection"
    using assms(7) by (auto simp: maxTableBytes_def word_less_nat_alt)
  have le: "\<not> maxTableBytes < sec_Size symtab" using assms(4) by simp
  show ?thesis
    using assms(1,2,3,5,6,7) pos le by (simp add: parseSymbols_def Seek_def Let_def)
qed

lemma parseSections_no_offset:
  "hdr_ShOff64 (elf_Header (st_elf s)) = 0 \<Longrightarrow> parseSections endian s = (None, s)"
  by (simp add: parseSections_def)

lemma parseSections_strtab_skipped:
  assumes "hdr_ShOff64 (elf_Header (st_elf s)) \<noteq> 0"
    and "Seek (st_r s) (sint (hdr_ShOff64 (elf_Header (st_elf s)))) = Some r1"
    and "hdr_ShNum (elf_Header (st_elf s)) \<noteq> 0"
    and "hdr_ShNum (elf_Header (st_elf s)) \<le> 10000"
    and "read_section_headers endian 0 (unat (hdr_ShNum (elf_Header (st_elf s))))
           (s\<lparr>st_r := r1,
              st_elf := (st_elf s)\<lparr>elf_Sections :=
                replicate (unat (hdr_ShNum (elf_Header (st_elf s)))) zero_Section\<rparr>,
              st_allocs := st_allocs s @
                [MakeSections (unat (hdr_ShNum (elf_Header (st_elf s))))]\<rparr>) = (None, s2)"
    and "hdr_ShStrndx (elf_Header (st_elf s)) < hdr_ShNum (elf_Header (st_elf s))"
    and "sec_Offset (elf_Sections (st_elf s2) ! unat (hdr_ShStrndx (elf_Header (st_elf s)))) = 0 \<or>
         sec_Size (elf_Sections (st_elf s2) ! unat (hdr_ShStrndx (elf_Header (st_elf s)))) = 0"
  shows "parseSections endian s = (None, s2) \<and>
         st_allocs s2 = st_allocs s @ [MakeSections (unat (hdr_ShNum (elf_Header (st_elf s))))]"
proof -
  have a: "st_allocs s2 = st_allocs s @ [MakeSections (unat (hdr_ShNum (elf_Header (st_elf s))))]"
    using read_section_headers_allocs [of endian 0 "unat (hdr_ShNum (elf_Header (st_elf s)))"
        "s\<lparr>st_r := r1,
              st_elf := (st_elf s)\<lparr>elf_Sections :=
                replicate (unat (hdr_ShNum (elf_Header (st_elf s)))) zero_Section\<rparr>,
              st_allocs := st_allocs s @
                [MakeSections (unat (hdr_ShNum (elf_Header (st_elf s))))]\<rparr>"] assms(5)
    by simp
  have n: "\<not> 10000 < hdr_ShNum (elf_Header (st_elf s))" using assms(4) by simp
  have skip: "(0 < sec_Offset (elf_Sections (st_elf s2) !
                      unat (hdr_ShStrndx (elf_Header (st_elf s)))) \<and>
               0 < sec_Size (elf_Sections (st_elf s2) !
                      unat (hdr_ShStrndx (elf_Header (st_elf s))))) = False"
    using assms(7) by auto
  show ?thesis
    using assms(1,2,3,5,6) n a by (simp add: parseSections_def Let_def skip)
qed

lemma parseSymbols_no_entries:
  assumes "find (\<lambda>sec. sec_Type sec = 2) (elf_Sections (st_elf s)) = Some symtab"
    and "sec_Size symtab = 0 \<or> sec_EntSize symtab = 0"
  shows "parseSymbols endian s = (None, s)"
  using assms by (auto simp: parseSymbols_def)

lemma parseSymbols_many_symbols:
  "fst (parseSymbols LittleEndian st_many_symbols) = None \<and>
   length (elf_Symbols (st_elf (snd (parseSymbols LittleEndian st_many_symbols)))) = 100000 \<and>
   st_allocs (snd (parseSymbols LittleEndian st_many_symbols)) = [MakeSymbols 100000]"
  by (simp add: parseSymbols_def st_many_symbols_def zero_ELF_def zero_Section_def
      maxTableBytes_def maxSymbols_def Seek_def NewReader_def Let_def read_symbols.simps Read_def)

text \<open>
  Claim C3 fails as stated: a symbol table that declares 100001 symbols is parsed without
  an error, and the symbol list is cut to the ceiling of 100000 entries.
\<close>

theorem parseSymbols_truncates_counterexample:
  "map (\<lambda>sec. sec_Size sec div sec_EntSize sec) (elf_Sections (st_elf st_many_symbols)) = [100001] \<and>
   fst (parseSymbols LittleEndian st_many_symbols) = None \<and>
   length (elf_Symbols (st_elf (snd (parseSymbols LittleEndian st_many_symbols)))) = 100000 \<and>
   st_allocs (snd (parseSymbols LittleEndian st_many_symbols)) = [MakeSymbols 100000]"
  using parseSymbols_many_symbols
  by (simp add: st_many_symbols_def zero_ELF_def zero_Section_def)

text \<open>
  Claim C3, amended. No allocation of \<^verbatim>\<open>parseSections\<close> or \<^verbatim>\<open>parseSymbols\<close> whose size
  comes from the input exceeds its ceiling (10000 sections, 100000 symbols, 100 MB for a
  table). The checks are made on the paths that reach them:
  \<^item> with a section-header offset other than 0 that can be sought, a section count above
    10000 is an error before any allocation; with the offset 0 \<^verbatim>\<open>parseSections\<close>
    returns at once without an error, whatever the count;
  \<^item> once the section headers are read and the string-table index is below the section
    count, a section-name string table with a file offset other than 0 and more than
    100 MB is an error after the section list alone has been allocated; with the file
    offset or the size 0 no string table is read and there is no error;
  \<^item> a symbol table of more than 100 MB with an entry size other than 0 is an error
    with the state unchanged; with the size or the entry size 0 \<^verbatim>\<open>parseSymbols\<close>
    returns without an error;
  \<^item> for a symbol table within the ceiling whose offset can be sought, a symbol-name
    string table of more than 100 MB is an error after the symbol list alone has been
    allocated;
  \<^item> a symbol count above 100000 is no error: the list has 100000 entries, and without
    a string table the sub-parse succeeds.
\<close>

theorem ceilings_checked_before_allocation:
  "(\<exists>new. st_allocs (snd (parseSections endian s)) = st_allocs s @ new \<and>
          list_all within_ceiling new) \<and>
   (\<exists>new. st_allocs (snd (parseSymbols endian s)) = st_allocs s @ new \<and>
          list_all within_ceiling new) \<and>
   (hdr_ShOff64 (elf_Header (st_elf s)) \<noteq> 0 \<and>
    0 \<le> sint (hdr_ShOff64 (elf_Header (st_elf s))) \<and>
    10000 < hdr_ShNum (elf_Header (st_elf s)) \<longrightarrow>
      fst (parseSections endian s) =
        Some (InvalidSectionCount (unat (hdr_ShNum (elf_Header (st_elf s))))) \<and>
      st_allocs (snd (parseSections endian s)) = st_allocs s \<and>
      st_elf (snd (parseSections endian s)) = st_elf s) \<and>
   (hdr_ShOff64 (elf_Header (st_elf s)) \<noteq> 0 \<and>
    Seek (st_r s) (sint (hdr_ShOff64 (elf_Header (st_elf s)))) = Some r1 \<and>
    hdr_ShNum (elf_Header (st_elf s)) \<noteq> 0 \<and>
    hdr_ShNum (elf_Header (st_elf s)) \<le> 10000 \<and>
    read_section_headers endian 0 (unat (hdr_ShNum (elf_Header (st_elf s))))
      (s\<lparr>st_r := r1,
         st_elf := (st_elf s)\<lparr>elf_Sections :=
           replicate (unat (hdr_ShNum (elf_Header (st_elf s)))) zero_Section\<rparr>,
         st_allocs := st_allocs s @
           [MakeSections (unat (hdr_ShNum (elf_Header (st_elf s))))]\<rparr>) = (None, s2) \<and>
    hdr_ShStrndx (elf_Header (st_elf s)) < hdr_ShNum (elf_Header (st_elf s)) \<and>
    0 < sec_Offset (elf_Sections (st_elf s2) ! unat (hdr_ShStrndx (elf_Header (st_elf s)))) \<and>
    maxTableBytes <
      sec_Size (elf_Sections (st_elf s2) ! unat (hdr_ShStrndx (elf_Header (st_elf s)))) \<longrightarrow>
      parseSections endian s =
        (Some (StringTableTooLarge (unat (sec_Size
           (elf_Sections (st_elf s2) ! unat (hdr_ShStrndx (elf_Header (st_elf s))))))), s2) \<and>
      st_allocs s2 = st_allocs s @ [MakeSections (unat (hdr_ShNum (elf_Header (st_elf s))))]) \<and>
   (find (\<lambda>sec. sec_Type sec = 2) (elf_Sections (st_elf s)) = Some symtab \<and>
    sec_EntSize symtab \<noteq> 0 \<and> maxTableBytes < sec_Size symtab \<longrightarrow>
      parseSymbols endian s = (Some (SymbolTableTooLarge (unat (sec_Size symtab))), s)) \<and>
   (find (\<lambda>sec. sec_Type sec = 2) (elf_Sections (st_elf s)) = Some symtab \<and>
    sec_Size symtab \<noteq> 0 \<and> sec_EntSize symtab \<noteq> 0 \<and> sec_Size symtab \<le> maxTableBytes \<and>
    0 \<le> sint (sec_Offset symtab) \<and>
    find (\<lambda>sec. sec_Type sec = 3 \<and> sec_Link sec = sec_Info symtab)
      (elf_Sections (st_elf s)) = Some strtabSection \<and>
    maxTableBytes < sec_Size strtabSection \<longrightarrow>
      fst (parseSymbols endian s) =
        Some (StringTableTooLarge (unat (sec_Size strtabSection))) \<and>
      (\<exists>n. st_allocs (snd (parseSymbols endian s)) = st_allocs s @ [MakeSymbols n])) \<and>
   (find (\<lambda>sec. sec_Type sec = 2) (elf_Sections (st_elf s)) = Some symtab \<and>
    sec_EntSize symtab \<noteq> 0 \<and> sec_Size symtab \<le> maxTableBytes \<and>
    0 \<le> sint (sec_Offset symtab) \<and>
    maxSymbols < sec_Size symtab div sec_EntSize symtab \<longrightarrow>
      length (elf_Symbols (st_elf (snd (parseSymbols endian s)))) = 100000 \<and>
      (\<exists>rest. st_allocs (snd (parseSymbols endian s)) =
               st_allocs s @ MakeSymbols 100000 # rest) \<and>
      (find (\<lambda>sec. sec_Type sec = 3 \<and> sec_Link sec = sec_Info symtab)
         (elf_Sections (st_elf s)) = None \<longrightarrow> fst (parseSymbols endian s) = None)) \<and>
   (hdr_ShOff64 (elf_Header (st_elf s)) = 0 \<longrightarrow> parseSections endian s = (None, s)) \<and>
   (hdr_ShOff64 (elf_Header (st_elf s)) \<noteq> 0 \<and>
    Seek (st_r s) (sint (hdr_ShOff64 (elf_Header (st_elf s)))) = Some r1 \<and>
    hdr_ShNum (elf_Header (st_elf s)) \<noteq> 0 \<and>
    hdr_ShNum (elf_Header (st_elf s)) \<le> 10000 \<and>
    read_section_headers endian 0 (unat (hdr_ShNum (elf_Header (st_elf s))))
      (s\<lparr>st_r := r1,
         st_elf := (st_elf s)\<lparr>elf_Sections :=
           replicate (unat (hdr_ShNum (elf_Header (st_elf s)))) zero_Section\<rparr>,
         st_allocs := st_allocs s @
           [MakeSections (unat (hdr_ShNum (elf_Header (st_elf s))))]\<rparr>) = (None, s2) \<and>
    hdr_ShStrndx (elf_Header (st_elf s)) < hdr_ShNum (elf_Header (st_elf s)) \<and>
    (sec_Offset (elf_Sections (st_elf s2) ! unat (hdr_ShStrndx (elf_Header (st_elf s)))) = 0 \<or>
     sec_Size (elf_Sections (st_elf s2) ! unat (hdr_ShStrndx (elf_Header (st_elf s)))) = 0) \<longrightarrow>
      parseSections endian s = (None, s2) \<and>
      st_allocs s2 = st_allocs s @ [MakeSections (unat (hdr_ShNum (elf_Header (st_elf s))))]) \<and>
   (find (\<lambda>sec. sec_Type sec = 2) (elf_Sections (st_elf s)) = Some symtab \<and>
    (sec_Size symtab = 0 \<or> sec_EntSize symtab = 0) \<longrightarrow>
      parseSymbols endian s = (None, s))"
  (is "?A \<and> ?B \<and> ?C \<and> ?D \<and> ?E \<and> ?F \<and> ?G \<and> ?H \<and> ?I \<and> ?J")
proof -
  have a: ?A by (rule parseSections_allocs)
  have b: ?B by (rule parseSymbols_allocs)
  have c: ?C using parseSections_count_error [of s endian] by blast
  have d: ?D using parseSections_strtab_error [of s r1 endian s2] by blast
  have e: ?E using parseSymbols_size_error [of s symtab endian] by blast
  have f: ?F using parseSymbols_strtab_error [of s symtab strtabSection endian] by blast
  have g: ?G using parseSymbols_clamps [of s symtab endian] by blast
  have h: ?H using parseSections_no_offset [of s endian] by blast
  have i: ?I using parseSections_strtab_skipped [of s r1 endian s2] by blast
  have j: ?J using parseSymbols_no_entries [of s symtab endian] by blast
  from a b c d e f g h i j show ?thesis by (intro conjI)
qed

theorem ceilings_checked_before_allocation_witness:
  "fst (parseSections LittleEndian st_many_sections) = Some (InvalidSectionCount 10001) \<and>
   st_allocs (snd (parseSections LittleEndian st_many_sections)) = [] \<and>
   fst (parseSections LittleEndian st_big_shstrtab) = Some (StringTableTooLarge 104857601) \<and>
   st_allocs (snd (parseSections LittleEndian st_big_shstrtab)) = [MakeSections 1] \<and>
   parseSymbols LittleEndian st_big_symtab =
     (Some (SymbolTableTooLarge 104857601), st_big_symtab) \<and>
   fst (parseSymbols LittleEndian st_big_strtab) = Some (StringTableTooLarge 104857601) \<and>
   st_allocs (snd (parseSymbols LittleEndian st_big_strtab)) = [MakeSymbols 1] \<and>
   length (elf_Symbols (st_elf (snd (parseSymbols LittleEndian st_many_symbols)))) = 100000 \<and>
   fst (parseSymbols LittleEndian st_many_symbols) = None \<and>
   (\<exists>new. st_allocs (snd (parseSymbols LittleEndian st_many_symbols)) = new \<and>
          list_all within_ceiling new) \<and>
   parseSections LittleEndian st_no_shoff = (None, st_no_shoff) \<and>
   fst (parseSections LittleEndian st_shstrtab_no_offset) = None \<and>
   st_allocs (snd (parseSections LittleEndian st_shstrtab_no_offset)) = [MakeSections 1] \<and>
   parseSymbols LittleEndian st_no_entsize = (None, st_no_entsize)"
proof -
  note T = ceilings_checked_before_allocation
  \<comment> \<open>more than 10000 sections\<close>
  have h1: "hdr_ShOff64 (elf_Header (st_elf st_many_sections)) \<noteq> 0 \<and>
            0 \<le> sint (hdr_ShOff64 (elf_Header (st_elf st_many_sections))) \<and>
            10000 < hdr_ShNum (elf_Header (st_elf st_many_sections))"
    by (simp add: st_many_sections_def zero_ELF_def zero_ELFHeader_def)
  have c: "fst (parseSections LittleEndian st_many_sections) = Some (InvalidSectionCount 10001) \<and>
           st_allocs (snd (parseSections LittleEndian st_many_sections)) = []"
    using T [of LittleEndian st_many_sections, THEN conjunct2, THEN conjunct2, THEN conjunct1,
             THEN mp, OF h1]
    by (simp add: st_many_sections_def zero_ELF_def zero_ELFHeader_def)
  \<comment> \<open>a section-name string table of more than 100 MB\<close>
  let ?r1 = "(st_r st_big_shstrtab)\<lparr>rd_pos := 8\<rparr>"
  let ?s1 = "st_big_shstrtab\<lparr>st_r := ?r1,
      st_elf := (st_elf st_big_shstrtab)\<lparr>elf_Sections :=
        replicate (unat (hdr_ShNum (elf_Header (st_elf st_big_shstrtab)))) zero_Section\<rparr>,
      st_allocs := st_allocs st_big_shstrtab @
        [MakeSections (unat (hdr_ShNum (elf_Header (st_elf st_big_shstrtab))))]\<rparr>"
  let ?res = "read_section_headers LittleEndian 0
      (unat (hdr_ShNum (elf_Header (st_elf st_big_shstrtab)))) ?s1"
  have n1: "unat (hdr_ShNum (elf_Header (st_elf st_big_shstrtab))) = 1"
    and x0: "unat (hdr_ShStrndx (elf_Header (st_elf st_big_shstrtab))) = 0"
    by (simp_all add: st_big_shstrtab_def zero_ELF_def zero_ELFHeader_def)
  have ev: "fst ?res = None \<and>
            sec_Offset (elf_Sections (st_elf (snd ?res)) ! 0) = 64 \<and>
            sec_Size (elf_Sections (st_elf (snd ?res)) ! 0) = 104857601"
    unfolding n1
    by (simp add: read_section_headers.simps st_big_shstrtab_def NewReader_def Read_def
        zero_ELF_def Let_def shdr_big_strtab_def decode_section64_def Uint64_def slice_def
        order_word_def)
  have h2: "hdr_ShOff64 (elf_Header (st_elf st_big_shstrtab)) \<noteq> 0 \<and>
    Seek (st_r st_big_shstrtab) (sint (hdr_ShOff64 (elf_Header (st_elf st_big_shstrtab)))) =
      Some ?r1 \<and>
    hdr_ShNum (elf_Header (st_elf st_big_shstrtab)) \<noteq> 0 \<and>
    hdr_ShNum (elf_Header (st_elf st_big_shstrtab)) \<le> 10000 \<and>
    ?res = (None, snd ?res) \<and>
    hdr_ShStrndx (elf_Header (st_elf st_big_shstrtab)) <
      hdr_ShNum (elf_Header (st_elf st_big_shstrtab)) \<and>
    0 < sec_Offset (elf_Sections (st_elf (snd ?res)) !
          unat (hdr_ShStrndx (elf_Header (st_elf st_big_shstrtab)))) \<and>
    maxTableBytes < sec_Size (elf_Sections (st_elf (snd ?res)) !
          unat (hdr_ShStrndx (elf_Header (st_elf st_big_shstrtab))))"
    unfolding x0 using ev
    by (simp add: prod_eq_iff st_big_shstrtab_def zero_ELF_def zero_ELFHeader_def Seek_def
        maxTableBytes_def)
  have d: "fst (parseSections LittleEndian st_big_shstrtab) = Some (StringTableTooLarge 104857601) \<and>
           st_allocs (snd (parseSections LittleEndian st_big_shstrtab)) = [MakeSections 1]"
    using T [of LittleEndian st_big_shstrtab ?r1 "snd ?res", THEN conjunct2, THEN conjunct2,
             THEN conjunct2, THEN conjunct1, THEN mp, OF h2] ev n1
    unfolding x0 by (simp add: st_big_shstrtab_def)
  \<comment> \<open>a symbol table of more than 100 MB\<close>
  let ?symtab = "zero_Section\<lparr>sec_Type := 2, sec_Size := 104857601, sec_EntSize := 24\<rparr>"
  have h3: "find (\<lambda>sec. sec_Type sec = 2) (elf_Sections (st_elf st_big_symtab)) = Some ?symtab \<and>
            sec_EntSize ?symtab \<noteq> 0 \<and> maxTableBytes < sec_Size ?symtab"
    by (simp add: st_big_symtab_def zero_ELF_def zero_Section_def maxTableBytes_def)
  have e: "parseSymbols LittleEndian st_big_symtab =
             (Some (SymbolTableTooLarge 104857601), st_big_symtab)"
    using T [of LittleEndian st_big_symtab _ _ ?symtab, THEN conjunct2, THEN conjunct2,
             THEN conjunct2, THEN conjunct2, THEN conjunct1, THEN mp, OF h3]
    by simp
  \<comment> \<open>a symbol-name string table of more than 100 MB\<close>
  let ?symtab1 = "zero_Section\<lparr>sec_Type := 2, sec_Size := 24, sec_EntSize := 24\<rparr>"
  let ?strtab = "zero_Section\<lparr>sec_Type := 3, sec_Size := 104857601\<rparr>"
  have h4: "find (\<lambda>sec. sec_Type sec = 2) (elf_Sections (st_elf st_big_strtab)) = Some ?symtab1 \<and>
    sec_Size ?symtab1 \<noteq> 0 \<and> sec_EntSize ?symtab1 \<noteq> 0 \<and> sec_Size ?symtab1 \<le> maxTableBytes \<and>
    0 \<le> sint (sec_Offset ?symtab1) \<and>
    find (\<lambda>sec. sec_Type sec = 3 \<and> sec_Link sec = sec_Info ?symtab1)
      (elf_Sections (st_elf st_big_strtab)) = Some ?strtab \<and>
    maxTableBytes < sec_Size ?strtab"
    by (simp add: st_big_strtab_def zero_ELF_def zero_Section_def maxTableBytes_def)
  have f0: "fst (parseSymbols LittleEndian st_big_strtab) =
           Some (StringTableTooLarge (unat (sec_Size ?strtab)))"
    using T [of LittleEndian st_big_strtab _ _ ?symtab1 ?strtab, THEN conjunct2, THEN conjunct2,
             THEN conjunct2, THEN conjunct2, THEN conjunct2, THEN conjunct1, THEN mp, OF h4]
    by (rule conjunct1)
  have f: "fst (parseSymbols LittleEndian st_big_strtab) = Some (StringTableTooLarge 104857601)"
    using f0 by simp
  have f': "st_allocs (snd (parseSymbols LittleEndian st_big_strtab)) = [MakeSymbols 1]"
    by (simp add: parseSymbols_def st_big_strtab_def zero_ELF_def zero_Section_def
        maxTableBytes_def maxSymbols_def Seek_def NewReader_def Let_def)
  \<comment> \<open>more than 100000 symbols\<close>
  let ?symtab2 = "zero_Section\<lparr>sec_Type := 2, sec_Size := 2400024, sec_EntSize := 24\<rparr>"
  have h5: "find (\<lambda>sec. sec_Type sec = 2) (elf_Sections (st_elf st_many_symbols)) = Some ?symtab2 \<and>
    sec_EntSize ?symtab2 \<noteq> 0 \<and> sec_Size ?symtab2 \<le> maxTableBytes \<and>
    0 \<le> sint (sec_Offset ?symtab2) \<and>
    maxSymbols < sec_Size ?symtab2 div sec_EntSize ?symtab2"
    by (simp add: st_many_symbols_def zero_ELF_def zero_Section_def maxTableBytes_def
        maxSymbols_def)
  have h6: "find (\<lambda>sec. sec_Type sec = 3 \<and> sec_Link sec = sec_Info ?symtab2)
              (elf_Sections (st_elf st_many_symbols)) = None"
    by (simp add: st_many_symbols_def zero_ELF_def zero_Section_def)
  note G = T [of LittleEndian st_many_symbols _ _ ?symtab2, THEN conjunct2, THEN conjunct2,
             THEN conjunct2, THEN conjunct2, THEN conjunct2, THEN conjunct2, THEN conjunct1,
             THEN mp, OF h5]
  have g1: "length (elf_Symbols (st_elf (snd (parseSymbols LittleEndian st_many_symbols)))) = 100000"
    using G by (rule conjunct1)
  have g2: "fst (parseSymbols LittleEndian st_many_symbols) = None"
    using G [THEN conjunct2, THEN conjunct2, THEN mp, OF h6] .
  have b: "\<exists>new. st_allocs (snd (parseSymbols LittleEndian st_many_symbols)) = new \<and>
                 list_all within_ceiling new"
    using T [of LittleEndian st_many_symbols, THEN conjunct2, THEN conjunct1]
    by (simp add: st_many_symbols_def)
  \<comment> \<open>10001 sections, but the section-header offset is 0\<close>
  have h7: "hdr_ShOff64 (elf_Header (st_elf st_no_shoff)) = 0"
    by (simp add: st_no_shoff_def zero_ELF_def zero_ELFHeader_def)
  have h: "parseSections LittleEndian st_no_shoff = (None, st_no_shoff)"
    using T [of LittleEndian st_no_shoff, THEN conjunct2, THEN conjunct2, THEN conjunct2,
             THEN conjunct2, THEN conjunct2, THEN conjunct2, THEN conjunct2, THEN conjunct1,
             THEN mp, OF h7] .
  \<comment> \<open>a section-name string table of more than 100 MB whose file offset is 0\<close>
  let ?q1 = "(st_r st_shstrtab_no_offset)\<lparr>rd_pos := 8\<rparr>"
  let ?t1 = "st_shstrtab_no_offset\<lparr>st_r := ?q1,
      st_elf := (st_elf st_shstrtab_no_offset)\<lparr>elf_Sections :=
        replicate (unat (hdr_ShNum (elf_Header (st_elf st_shstrtab_no_offset)))) zero_Section\<rparr>,
      st_allocs := st_allocs st_shstrtab_no_offset @
        [MakeSections (unat (hdr_ShNum (elf_Header (st_elf st_shstrtab_no_offset))))]\<rparr>"
  let ?res' = "read_section_headers LittleEndian 0
      (unat (hdr_ShNum (elf_Header (st_elf st_shstrtab_no_offset)))) ?t1"
  have n1': "unat (hdr_ShNum (elf_Header (st_elf st_shstrtab_no_offset))) = 1"
    and x0': "unat (hdr_ShStrndx (elf_Header (st_elf st_shstrtab_no_offset))) = 0"
    by (simp_all add: st_shstrtab_no_offset_def zero_ELF_def zero_ELFHeader_def)
  have ev': "fst ?res' = None \<and>
            sec_Offset (elf_Sections (st_elf (snd ?res')) ! 0) = 0 \<and>
            sec_Size (elf_Sections (st_elf (snd ?res')) ! 0) = 104857601"
    unfolding n1'
    by (simp add: read_section_headers.simps st_shstrtab_no_offset_def NewReader_def Read_def
        zero_ELF_def Let_def shdr_strtab_no_offset_def decode_section64_def Uint64_def slice_def
        order_word_def)
  have h8: "hdr_ShOff64 (elf_Header (st_elf st_shstrtab_no_offset)) \<noteq> 0 \<and>
    Seek (st_r st_shstrtab_no_offset)
      (sint (hdr_ShOff64 (elf_Header (st_elf st_shstrtab_no_offset)))) = Some ?q1 \<and>
    hdr_ShNum (elf_Header (st_elf st_shstrtab_no_offset)) \<noteq> 0 \<and>
    hdr_ShNum (elf_Header (st_elf st_shstrtab_no_offset)) \<le> 10000 \<and>
    ?res' = (None, snd ?res') \<and>
    hdr_ShStrndx (elf_Header (st_elf st_shstrtab_no_offset)) <
      hdr_ShNum (elf_Header (st_elf st_shstrtab_no_offset)) \<and>
    (sec_Offset (elf_Sections (st_elf (snd ?res')) !
          unat (hdr_ShStrndx (elf_Header (st_elf st_shstrtab_no_offset)))) = 0 \<or>
     sec_Size (elf_Sections (st_elf (snd ?res')) !
          unat (hdr_ShStrndx (elf_Header (st_elf st_shstrtab_no_offset)))) = 0)"
    unfolding x0' using ev'
    by (simp add: prod_eq_iff st_shstrtab_no_offset_def zero_ELF_def zero_ELFHeader_def Seek_def)
  have i: "fst (parseSections LittleEndian st_shstrtab_no_offset) = None \<and>
           st_allocs (snd (parseSections LittleEndian st_shstrtab_no_offset)) = [MakeSections 1]"
    using T [of LittleEndian st_shstrtab_no_offset ?q1 "snd ?res'", THEN conjunct2,
             THEN conjunct2, THEN conjunct2, THEN conjunct2, THEN conjunct2, THEN conjunct2,
             THEN conjunct2, THEN conjunct2, THEN conjunct1, THEN mp, OF h8] n1'
    by (simp add: st_shstrtab_no_offset_def)
  \<comment> \<open>a symbol table of more than 100 MB whose entry size is 0\<close>
  let ?symtab3 = "zero_Section\<lparr>sec_Type := 2, sec_Size := 104857601, sec_EntSize := 0\<rparr>"
  have h9: "find (\<lambda>sec. sec_Type sec = 2) (elf_Sections (st_elf st_no_entsize)) = Some ?symtab3 \<and>
            (sec_Size ?symtab3 = 0 \<or> sec_EntSize ?symtab3 = 0)"
    by (simp add: st_no_entsize_def zero_ELF_def zero_Section_def)
  have j: "parseSymbols LittleEndian st_no_entsize = (None, st_no_entsize)"
    using T [of LittleEndian st_no_entsize _ _ ?symtab3, THEN conjunct2, THEN conjunct2,
             THEN conjunct2, THEN conjunct2, THEN conjunct2, THEN conjunct2, THEN conjunct2,
             THEN conjunct2, THEN conjunct2, THEN mp, OF h9] .
  from c d e f f' g1 g2 b h i j show ?thesis by (intro conjI) (simp_all only:)
qed

end
